theory Spec2Isabelle
  imports
    Complex_Main
    "HOL-Library.Multiset"
    "HOL-Library.Char_ord"
    "HOL-Library.List_Lexorder"
    "HOL-Library.Product_Lexorder"
begin

section \<open>Input records (overview.json, maps.json, operators.json)\<close>

text \<open>
  The three input files hold JSON records of the shape
  \<^verbatim>\<open>{metadata: {...}, attributes: {...}, stats: {key: {value, displayName, ...}}}\<close>.
  A key of a JSON object can be missing, can hold \<^verbatim>\<open>null\<close>, or can hold a value; the
  extractors tell the three apart, so the model does too. Numbers are JSON numbers
  (Python \<^verbatim>\<open>int\<close> or \<^verbatim>\<open>float\<close>); they are modelled as exact rationals, and the
  division the code performs is the exact one.
\<close>

datatype 'a field = Absent | Null | Present 'a

text \<open>
  One entry of a \<^verbatim>\<open>stats\<close> object. Only the keys the program reads are kept. The entry
  is the empty dict (falsy in Python) exactly when every key of it is missing.
\<close>

record stat_entry =
  se_value :: "rat field"
  se_displayName :: "string field"

type_synonym stats = "string \<Rightarrow> stat_entry field"

definition entry_truthy :: "stat_entry \<Rightarrow> bool" where
  "entry_truthy entry \<longleftrightarrow> \<not> (se_value entry = Absent \<and> se_displayName entry = Absent)"

text \<open>
  \<^verbatim>\<open>def get_stat(key):
      entry = stats.get(key)
      return entry.get("value") if (entry and entry.get("value") is not None) else 0\<close>
  The same closure is written in each of the three extractors.
\<close>

definition get_stat :: "stats \<Rightarrow> string \<Rightarrow> rat" where
  "get_stat stats key =
     (case stats key of
        Present entry \<Rightarrow>
          (if entry_truthy entry
           then (case se_value entry of Present v \<Rightarrow> v | Null \<Rightarrow> 0 | Absent \<Rightarrow> 0)
           else 0)
      | Null \<Rightarrow> 0
      | Absent \<Rightarrow> 0)"

text \<open>
  The labels (\<^verbatim>\<open>type\<close>, \<^verbatim>\<open>mapName\<close>, \<^verbatim>\<open>operatorName\<close>, \<^verbatim>\<open>side\<close>, ...) are fields of
  the same kind: the key can be missing, in which case \<^verbatim>\<open>dict.get\<close> gives its default, it
  can hold \<^verbatim>\<open>null\<close>, in which case \<^verbatim>\<open>dict.get\<close> gives \<^verbatim>\<open>None\<close>, or it can hold a string.
  The containers have the shape of the export: \<^verbatim>\<open>segments\<close> and the two other files are
  lists of objects, and \<^verbatim>\<open>metadata\<close>, \<^verbatim>\<open>attributes\<close> and \<^verbatim>\<open>stats\<close> are objects; a
  record without one of the three reads like one with the empty object, by
  \<^verbatim>\<open>entry.get("metadata", {})\<close>. A string is a list of characters with code points below
  256.
\<close>

record segment =
  seg_type :: "string field"
  seg_stats :: stats

record overview_json =
  segments :: "segment list"

record map_entry =
  me_metadata_mapName :: "string field"
  me_attributes_map :: "string field"
  me_stats :: stats

record op_entry =
  oe_metadata_operatorName :: "string field"
  oe_attributes_operator :: "string field"
  oe_attributes_side :: "string field"
  oe_stats :: stats

section \<open>Tables\<close>

text \<open>
  A pandas \<^verbatim>\<open>DataFrame\<close> is either \<^verbatim>\<open>pd.DataFrame()\<close>, which has no column and no
  row, or a frame with the columns of its schema and a list of rows. Selecting a column
  of the first one raises \<^verbatim>\<open>KeyError\<close>; calling a method of \<^verbatim>\<open>None\<close> raises
  \<^verbatim>\<open>AttributeError\<close>.
\<close>

datatype 'r dataframe = EmptyFrame | Rows "'r list"

datatype error = KeyError | AttributeError

fun rows_of :: "'r dataframe \<Rightarrow> 'r list" where
  "rows_of EmptyFrame = []"
| "rows_of (Rows rs) = rs"

text \<open>\<^verbatim>\<open>df.empty\<close>\<close>

fun df_empty :: "'r dataframe \<Rightarrow> bool" where
  "df_empty EmptyFrame = True"
| "df_empty (Rows rs) = (rs = [])"

text \<open>\<^verbatim>\<open>pd.DataFrame(rows)\<close> for a list of dicts: an empty list gives the frame with no column.\<close>

definition DataFrame :: "'r list \<Rightarrow> 'r dataframe" where
  "DataFrame rows = (if rows = [] then EmptyFrame else Rows rows)"

text \<open>
  \<^verbatim>\<open>pd.concat(frames, ignore_index=True) if frames else pd.DataFrame()\<close>: the rows of the
  frames in order; no column at all when no frame has one.
\<close>

definition concat_frames :: "'r dataframe list \<Rightarrow> 'r dataframe" where
  "concat_frames frames =
     (if list_all (\<lambda>f. f = EmptyFrame) frames then EmptyFrame
      else Rows (concat (map rows_of frames)))"

record overview_row =
  ov_player :: string
  ov_matchesPlayed :: rat
  ov_matchesWon :: rat
  ov_matchesLost :: rat
  ov_winPct :: rat
  ov_kills :: rat
  ov_deaths :: rat
  ov_kdRatio :: rat

text \<open>
  The rows of the three extracted tables. The columns \<^verbatim>\<open>mapName\<close> and \<^verbatim>\<open>side\<close> hold what
  \<^verbatim>\<open>dict.get\<close> returned: a string, or \<^verbatim>\<open>None\<close> (here \<open>None\<close>) for a \<^verbatim>\<open>null\<close> label.
\<close>

record map_row =
  m_player :: string
  m_mapName :: "string option"
  m_matchesPlayed :: rat
  m_matchesWon :: rat
  m_winPct :: rat
  m_kills :: rat
  m_deaths :: rat
  m_kdRatio :: rat

record op_row =
  o_player :: string
  o_operatorName :: string
  o_side :: "string option"
  o_matchesPlayed :: rat
  o_matchesWon :: rat
  o_winPct :: rat
  o_kills :: rat
  o_deaths :: rat
  o_kdRatio :: rat

section \<open>Extractors\<close>

text \<open>
  \<^verbatim>\<open>for seg in overview_json.get("segments", []):
      if seg.get("type") == "overview":
          segmento_overview = seg
          break\<close>
\<close>

fun find_overview :: "segment list \<Rightarrow> segment option" where
  "find_overview [] = None"
| "find_overview (seg # segs) =
     (if seg_type seg = Present ''overview'' then Some seg else find_overview segs)"

definition parse_overview_to_df :: "overview_json \<Rightarrow> string \<Rightarrow> overview_row dataframe" where
  "parse_overview_to_df overview player_name =
     (case find_overview (segments overview) of
        None \<Rightarrow> EmptyFrame
      | Some segmento_overview \<Rightarrow>
          (let stats = seg_stats segmento_overview in
           Rows [\<lparr> ov_player = player_name,
                   ov_matchesPlayed = get_stat stats ''matchesPlayed'',
                   ov_matchesWon = get_stat stats ''matchesWon'',
                   ov_matchesLost = get_stat stats ''matchesLost'',
                   ov_winPct = get_stat stats ''winPercentage'',
                   ov_kills = get_stat stats ''kills'',
                   ov_deaths = get_stat stats ''deaths'',
                   ov_kdRatio = get_stat stats ''kdRatio'' \<rparr>]))"

text \<open>
  \<^verbatim>\<open>map_name = metadata.get("mapName", entry.get("attributes", {}).get("map", "Unknown"))\<close>
  The default is used only when the key \<^verbatim>\<open>mapName\<close> is missing; a \<^verbatim>\<open>null\<close> label is
  returned as \<^verbatim>\<open>None\<close>.
\<close>

definition map_name_of :: "map_entry \<Rightarrow> string option" where
  "map_name_of entry =
     (case me_metadata_mapName entry of
        Present n \<Rightarrow> Some n
      | Null \<Rightarrow> None
      | Absent \<Rightarrow>
          (case me_attributes_map entry of
             Present n \<Rightarrow> Some n
           | Null \<Rightarrow> None
           | Absent \<Rightarrow> Some ''Unknown''))"

text \<open>The body of the loop of \<^verbatim>\<open>parse_maps_to_df\<close>: the row of one entry.\<close>

definition map_row_of :: "string \<Rightarrow> map_entry \<Rightarrow> map_row" where
  "map_row_of player_name entry =
     (let stats = me_stats entry in
      \<lparr> m_player = player_name,
        m_mapName = map_name_of entry,
        m_matchesPlayed = get_stat stats ''matchesPlayed'',
        m_matchesWon = get_stat stats ''matchesWon'',
        m_winPct = get_stat stats ''winPercentage'',
        m_kills = get_stat stats ''kills'',
        m_deaths = get_stat stats ''deaths'',
        m_kdRatio = get_stat stats ''kdRatio'' \<rparr>)"

definition parse_maps_to_df :: "map_entry list \<Rightarrow> string \<Rightarrow> map_row dataframe" where
  "parse_maps_to_df maps_json player_name = DataFrame (map (map_row_of player_name) maps_json)"

text \<open>
  \<^verbatim>\<open>str.strip()\<close> and \<^verbatim>\<open>str.lower()\<close> on the code points below 256. The white space of
  \<^verbatim>\<open>str.isspace\<close> there is 9 to 13, 28 to 32, 133 (\<^verbatim>\<open>0x85\<close>) and 160 (\<^verbatim>\<open>0xA0\<close>); the
  letters \<^verbatim>\<open>str.lower\<close> changes there are 65 to 90 and 192 to 222 without 215, each
  moved up by 32.
\<close>

definition is_space :: "char \<Rightarrow> bool" where
  "is_space c \<longleftrightarrow>
     (let n = (of_char c :: nat)
      in (9 \<le> n \<and> n \<le> 13) \<or> (28 \<le> n \<and> n \<le> 32) \<or> n = 133 \<or> n = 160)"

definition strip :: "string \<Rightarrow> string" where
  "strip s = rev (dropWhile is_space (rev (dropWhile is_space s)))"

definition lower_char :: "char \<Rightarrow> char" where
  "lower_char c =
     (let n = (of_char c :: nat)
      in if (65 \<le> n \<and> n \<le> 90) \<or> (192 \<le> n \<and> n \<le> 222 \<and> n \<noteq> 215) then char_of (n + 32) else c)"

definition lower :: "string \<Rightarrow> string" where
  "lower s = map lower_char s"

text \<open>
  \<^verbatim>\<open>op_name = metadata.get("operatorName", attributes.get("operator", "")).strip()\<close>
  When \<^verbatim>\<open>operatorName\<close> holds \<^verbatim>\<open>null\<close>, or is missing while \<^verbatim>\<open>operator\<close> holds
  \<^verbatim>\<open>null\<close>, \<^verbatim>\<open>.strip()\<close> is called on \<^verbatim>\<open>None\<close> and raises \<^verbatim>\<open>AttributeError\<close>.
\<close>

definition op_name_of :: "op_entry \<Rightarrow> error + string" where
  "op_name_of entry =
     (case oe_metadata_operatorName entry of
        Present n \<Rightarrow> Inr (strip n)
      | Null \<Rightarrow> Inl AttributeError
      | Absent \<Rightarrow>
          (case oe_attributes_operator entry of
             Present n \<Rightarrow> Inr (strip n)
           | Null \<Rightarrow> Inl AttributeError
           | Absent \<Rightarrow> Inr (strip '''')))"

text \<open>\<^verbatim>\<open>side = attributes.get("side", "all")\<close>: a \<^verbatim>\<open>null\<close> side is kept as \<^verbatim>\<open>None\<close>.\<close>

definition side_of :: "op_entry \<Rightarrow> string option" where
  "side_of entry =
     (case oe_attributes_side entry of Present s \<Rightarrow> Some s | Null \<Rightarrow> None | Absent \<Rightarrow> Some ''all'')"

text \<open>
  \<^verbatim>\<open>if not op_name or op_name.lower() == "unknown": continue\<close>: the names that are
  not skipped.
\<close>

definition op_kept :: "string \<Rightarrow> bool" where
  "op_kept op_name \<longleftrightarrow> \<not> (op_name = [] \<or> lower op_name = ''unknown'')"

text \<open>The row literal of the loop of \<^verbatim>\<open>parse_operators_to_df\<close>.\<close>

definition op_row_of :: "string \<Rightarrow> string \<Rightarrow> op_entry \<Rightarrow> op_row" where
  "op_row_of player_name op_name entry =
     (let stats = oe_stats entry in
      \<lparr> o_player = player_name,
        o_operatorName = op_name,
        o_side = side_of entry,
        o_matchesPlayed = get_stat stats ''matchesPlayed'',
        o_matchesWon = get_stat stats ''matchesWon'',
        o_winPct = get_stat stats ''winPercentage'',
        o_kills = get_stat stats ''kills'',
        o_deaths = get_stat stats ''deaths'',
        o_kdRatio = get_stat stats ''kdRatio'' \<rparr>)"

text \<open>
  The loop \<^verbatim>\<open>for entry in ops_json\<close>: the rows of the entries in order, or the fault of
  the first entry whose name cannot be stripped.
\<close>

fun parse_operators_rows :: "op_entry list \<Rightarrow> string \<Rightarrow> error + op_row list" where
  "parse_operators_rows [] player_name = Inr []"
| "parse_operators_rows (entry # entries) player_name =
     (case op_name_of entry of
        Inl e \<Rightarrow> Inl e
      | Inr op_name \<Rightarrow>
          (case parse_operators_rows entries player_name of
             Inl e \<Rightarrow> Inl e
           | Inr rows \<Rightarrow>
               Inr (if op_kept op_name then op_row_of player_name op_name entry # rows else rows)))"

definition parse_operators_to_df :: "op_entry list \<Rightarrow> string \<Rightarrow> error + op_row dataframe" where
  "parse_operators_to_df ops_json player_name =
     (case parse_operators_rows ops_json player_name of
        Inl e \<Rightarrow> Inl e
      | Inr rows \<Rightarrow> Inr (DataFrame rows))"

text \<open>
  The statistic key that feeds each numeric column of a row, as the three row literals
  of the extractors pair them.
\<close>

definition overview_columns :: "(string \<times> (overview_row \<Rightarrow> rat)) list" where
  "overview_columns =
     [(''matchesPlayed'', ov_matchesPlayed), (''matchesWon'', ov_matchesWon),
      (''matchesLost'', ov_matchesLost), (''winPercentage'', ov_winPct),
      (''kills'', ov_kills), (''deaths'', ov_deaths), (''kdRatio'', ov_kdRatio)]"

definition map_columns :: "(string \<times> (map_row \<Rightarrow> rat)) list" where
  "map_columns =
     [(''matchesPlayed'', m_matchesPlayed), (''matchesWon'', m_matchesWon),
      (''winPercentage'', m_winPct), (''kills'', m_kills), (''deaths'', m_deaths),
      (''kdRatio'', m_kdRatio)]"

definition op_columns :: "(string \<times> (op_row \<Rightarrow> rat)) list" where
  "op_columns =
     [(''matchesPlayed'', o_matchesPlayed), (''matchesWon'', o_matchesWon),
      (''winPercentage'', o_winPct), (''kills'', o_kills), (''deaths'', o_deaths),
      (''kdRatio'', o_kdRatio)]"

text \<open>
  A statistic is missing when its key is not in the \<^verbatim>\<open>stats\<close> object, when the key
  holds \<^verbatim>\<open>null\<close>, or when its entry has no \<^verbatim>\<open>value\<close> or a \<^verbatim>\<open>null\<close> one.
\<close>

definition stat_missing :: "stats \<Rightarrow> string \<Rightarrow> bool" where
  "stat_missing stats key =
     (case stats key of
        Absent \<Rightarrow> True
      | Null \<Rightarrow> True
      | Present entry \<Rightarrow> (case se_value entry of Present v \<Rightarrow> False | Null \<Rightarrow> True | Absent \<Rightarrow> True))"

section \<open>Aggregation (main, step 7.4)\<close>

text \<open>
  The three guarded expressions every aggregate uses:
  \<^verbatim>\<open>(won / played * 100) if played > 0 else 0\<close>,
  \<^verbatim>\<open>(kills / deaths) if deaths > 0 else 0\<close> and
  \<^verbatim>\<open>kills / played.replace(0, pd.NA)\<close>, whose result is \<^verbatim>\<open>NA\<close> (here \<open>None\<close>) where
  \<^verbatim>\<open>played\<close> is 0.
\<close>

definition win_pct :: "rat \<Rightarrow> rat \<Rightarrow> rat" where
  "win_pct won played = (if played > 0 then won / played * 100 else 0)"

definition kd_ratio :: "rat \<Rightarrow> rat \<Rightarrow> rat" where
  "kd_ratio kills deaths = (if deaths > 0 then kills / deaths else 0)"

definition kills_per_match :: "rat \<Rightarrow> rat \<Rightarrow> rat option" where
  "kills_per_match kills played = (if played = 0 then None else Some (kills / played))"

text \<open>
  \<^verbatim>\<open>df.groupby(keys)\<close> makes one group per distinct key, the groups in the order of
  their keys (\<^verbatim>\<open>sort=True\<close> is the default), and leaves out the rows whose key has a
  \<^verbatim>\<open>None\<close> in it (\<^verbatim>\<open>dropna=True\<close> is the default). The key of a row is \<open>None\<close> when one
  of its key columns holds \<^verbatim>\<open>None\<close>.
\<close>

definition group_keys :: "('r \<Rightarrow> 'k::linorder option) \<Rightarrow> 'r list \<Rightarrow> 'k list" where
  "group_keys key rows = sort (remdups (List.map_filter key rows))"

definition group_of :: "('r \<Rightarrow> 'k option) \<Rightarrow> 'r list \<Rightarrow> 'k \<Rightarrow> 'r list" where
  "group_of key rows k = filter (\<lambda>r. key r = Some k) rows"

text \<open>
  The keys of \<^verbatim>\<open>groupby(["operatorName", "side"])\<close> and of
  \<^verbatim>\<open>groupby(["player", "operatorName", "side"])\<close> on the operator rows, where only
  \<^verbatim>\<open>side\<close> can hold \<^verbatim>\<open>None\<close>.
\<close>

definition key_operator_side :: "op_row \<Rightarrow> (string \<times> string) option" where
  "key_operator_side r = (case o_side r of None \<Rightarrow> None | Some s \<Rightarrow> Some (o_operatorName r, s))"

definition key_player_operator_side :: "op_row \<Rightarrow> (string \<times> string \<times> string) option" where
  "key_player_operator_side r =
     (case o_side r of None \<Rightarrow> None | Some s \<Rightarrow> Some (o_player r, o_operatorName r, s))"

record team_overview_row =
  eq_player :: string
  eq_matchesPlayed :: rat
  eq_matchesWon :: rat
  eq_matchesLost :: rat
  eq_kills :: rat
  eq_deaths :: rat
  eq_winPct :: rat
  eq_kdRatio :: rat

text \<open>Step 7.4.1: the team's overview, one row labelled \<^verbatim>\<open>Equipe\<close>.\<close>

definition df_overview_equipe_of :: "overview_row dataframe \<Rightarrow> team_overview_row dataframe" where
  "df_overview_equipe_of overview_df =
     (if df_empty overview_df then EmptyFrame
      else
        (let rows = rows_of overview_df;
             played = sum_list (map ov_matchesPlayed rows);
             won = sum_list (map ov_matchesWon rows);
             lost = sum_list (map ov_matchesLost rows);
             kills = sum_list (map ov_kills rows);
             deaths = sum_list (map ov_deaths rows)
         in Rows [\<lparr> eq_player = ''Equipe'',
                    eq_matchesPlayed = played,
                    eq_matchesWon = won,
                    eq_matchesLost = lost,
                    eq_kills = kills,
                    eq_deaths = deaths,
                    eq_winPct = win_pct won played,
                    eq_kdRatio = kd_ratio kills deaths \<rparr>]))"

record map_agg_row =
  ma_mapName :: string
  ma_matchesPlayed :: rat
  ma_matchesWon :: rat
  ma_kills :: rat
  ma_deaths :: rat
  ma_matchesLost :: rat
  ma_winPct :: rat
  ma_kdRatio :: rat

text \<open>
  Step 7.4.2: one row per map name, the counts summed over the group. A table whose map
  names are all \<^verbatim>\<open>None\<close> gives an aggregate that has its columns and no row.
\<close>

definition map_agg_row_of :: "map_row list \<Rightarrow> string \<Rightarrow> map_agg_row" where
  "map_agg_row_of rows k =
     (let g = group_of m_mapName rows k;
          played = sum_list (map m_matchesPlayed g);
          won = sum_list (map m_matchesWon g);
          kills = sum_list (map m_kills g);
          deaths = sum_list (map m_deaths g)
      in \<lparr> ma_mapName = k,
           ma_matchesPlayed = played,
           ma_matchesWon = won,
           ma_kills = kills,
           ma_deaths = deaths,
           ma_matchesLost = played - won,
           ma_winPct = win_pct won played,
           ma_kdRatio = kd_ratio kills deaths \<rparr>)"

definition maps_df_agg_of :: "map_row dataframe \<Rightarrow> map_agg_row dataframe" where
  "maps_df_agg_of maps_df =
     (if df_empty maps_df then EmptyFrame
      else Rows (map (map_agg_row_of (rows_of maps_df)) (group_keys m_mapName (rows_of maps_df))))"

record op_team_row =
  ot_operatorName :: string
  ot_side :: string
  ot_matchesPlayed :: rat
  ot_matchesWon :: rat
  ot_kills :: rat
  ot_deaths :: rat
  ot_matchesLost :: rat
  ot_winPct :: rat
  ot_kdRatio :: rat
  ot_killsPerMatch :: "rat option"

text \<open>Step 7.4.3, first half: one row per (operator, side).\<close>

definition op_team_row_of :: "op_row list \<Rightarrow> string \<times> string \<Rightarrow> op_team_row" where
  "op_team_row_of rows k =
     (let g = group_of key_operator_side rows k;
          played = sum_list (map o_matchesPlayed g);
          won = sum_list (map o_matchesWon g);
          kills = sum_list (map o_kills g);
          deaths = sum_list (map o_deaths g)
      in \<lparr> ot_operatorName = fst k,
           ot_side = snd k,
           ot_matchesPlayed = played,
           ot_matchesWon = won,
           ot_kills = kills,
           ot_deaths = deaths,
           ot_matchesLost = played - won,
           ot_winPct = win_pct won played,
           ot_kdRatio = kd_ratio kills deaths,
           ot_killsPerMatch = kills_per_match kills played \<rparr>)"

definition ops_df_agg_team_of :: "op_row dataframe \<Rightarrow> op_team_row dataframe" where
  "ops_df_agg_team_of ops_df =
     (if df_empty ops_df then EmptyFrame
      else Rows (map (op_team_row_of (rows_of ops_df))
                  (group_keys key_operator_side (rows_of ops_df))))"

record op_player_row =
  op_player :: string
  op_operatorName :: string
  op_side :: string
  op_matchesPlayed :: rat
  op_matchesWon :: rat
  op_kills :: rat
  op_deaths :: rat
  op_matchesLost :: rat
  op_winPct :: rat
  op_kdRatio :: rat
  op_killsPerMatch :: "rat option"

text \<open>Step 7.4.3, second half: one row per (player, operator, side).\<close>

definition op_player_row_of :: "op_row list \<Rightarrow> string \<times> string \<times> string \<Rightarrow> op_player_row" where
  "op_player_row_of rows k =
     (let g = group_of key_player_operator_side rows k;
          played = sum_list (map o_matchesPlayed g);
          won = sum_list (map o_matchesWon g);
          kills = sum_list (map o_kills g);
          deaths = sum_list (map o_deaths g)
      in \<lparr> op_player = fst k,
           op_operatorName = fst (snd k),
           op_side = snd (snd k),
           op_matchesPlayed = played,
           op_matchesWon = won,
           op_kills = kills,
           op_deaths = deaths,
           op_matchesLost = played - won,
           op_winPct = win_pct won played,
           op_kdRatio = kd_ratio kills deaths,
           op_killsPerMatch = kills_per_match kills played \<rparr>)"

definition ops_df_agg_player_of :: "op_row dataframe \<Rightarrow> op_player_row dataframe" where
  "ops_df_agg_player_of ops_df =
     (if df_empty ops_df then EmptyFrame
      else Rows (map (op_player_row_of (rows_of ops_df))
                  (group_keys key_player_operator_side (rows_of ops_df))))"

section \<open>Ranking functions\<close>

text \<open>
  \<^verbatim>\<open>df.sort_values(column, ascending=...)\<close>. pandas leaves the order of rows with equal
  keys to its sorting algorithm; the model keeps them in their original order. The source
  relies on no particular order of ties.
\<close>

definition sort_values :: "('r \<Rightarrow> rat) \<Rightarrow> bool \<Rightarrow> 'r list \<Rightarrow> 'r list" where
  "sort_values column ascending rows =
     (if ascending then sort_key column rows else sort_key (\<lambda>r. - column r) rows)"

text \<open>The same on a column that can hold \<^verbatim>\<open>NA\<close>: those rows come last in both directions.\<close>

definition sort_values_na :: "('r \<Rightarrow> rat option) \<Rightarrow> bool \<Rightarrow> 'r list \<Rightarrow> 'r list" where
  "sort_values_na column ascending rows =
     sort_values (\<lambda>r. the (column r)) ascending (filter (\<lambda>r. column r \<noteq> None) rows)
       @ filter (\<lambda>r. column r = None) rows"

text \<open>\<^verbatim>\<open>df.head(n)\<close>: the first \<open>n\<close> rows, or all but the last \<open>-n\<close> for a negative \<open>n\<close>.\<close>

definition head :: "int \<Rightarrow> 'r list \<Rightarrow> 'r list" where
  "head n rows = (if 0 \<le> n then take (nat n) rows else take (length rows - nat (- n)) rows)"

definition compute_best_worst_maps ::
  "map_agg_row dataframe \<Rightarrow> rat \<Rightarrow> error + (map_agg_row dataframe \<times> map_agg_row dataframe)" where
  "compute_best_worst_maps maps_df_agg min_map_matches =
     (case maps_df_agg of
        EmptyFrame \<Rightarrow> Inl KeyError
      | Rows rows \<Rightarrow>
          (let df = filter (\<lambda>r. ma_matchesPlayed r \<ge> min_map_matches) rows in
           if df = [] then Inr (EmptyFrame, EmptyFrame)
           else Inr (Rows (sort_values ma_winPct False df), Rows (sort_values ma_winPct True df))))"

record side_row =
  s_side :: string
  s_matchesPlayed :: rat
  s_matchesWon :: rat
  s_matchesLost :: rat
  s_winPctSide :: rat

text \<open>The key of \<^verbatim>\<open>groupby("side")\<close> on the team aggregate, whose sides are strings.\<close>

definition key_side :: "op_team_row \<Rightarrow> string option" where
  "key_side r = Some (ot_side r)"

definition side_row_of :: "op_team_row list \<Rightarrow> string \<Rightarrow> side_row" where
  "side_row_of rows k =
     (let g = group_of key_side rows k;
          played = sum_list (map ot_matchesPlayed g);
          won = sum_list (map ot_matchesWon g)
      in \<lparr> s_side = k,
           s_matchesPlayed = played,
           s_matchesWon = won,
           s_matchesLost = played - won,
           s_winPctSide = win_pct won played \<rparr>)"

definition compute_side_performance :: "op_team_row dataframe \<Rightarrow> error + side_row dataframe" where
  "compute_side_performance ops_df_agg =
     (case ops_df_agg of
        EmptyFrame \<Rightarrow> Inl KeyError
      | Rows rows \<Rightarrow>
          Inr (Rows (sort_values s_matchesPlayed False
                       (map (side_row_of rows) (group_keys key_side rows)))))"

definition compute_most_played_operators ::
  "op_player_row dataframe \<Rightarrow> rat \<Rightarrow> int \<Rightarrow>
     error + (op_player_row dataframe \<times> op_player_row dataframe \<times> op_player_row dataframe)" where
  "compute_most_played_operators ops_df_agg_player min_operator_matches top_n =
     (case ops_df_agg_player of
        EmptyFrame \<Rightarrow> Inl KeyError
      | Rows rows \<Rightarrow>
          (let df = filter (\<lambda>r. op_matchesPlayed r \<ge> min_operator_matches) rows in
           if df = [] then Inr (EmptyFrame, EmptyFrame, EmptyFrame)
           else
             (let mais_jogados = head top_n (sort_values op_matchesPlayed False df);
                  maior_win = head top_n (sort_values op_winPct False df);
                  df_kpm = map (\<lambda>r. r\<lparr> op_killsPerMatch :=
                                          kills_per_match (op_kills r) (op_matchesPlayed r) \<rparr>) df;
                  maior_kpm = head top_n (sort_values_na op_killsPerMatch False df_kpm)
              in Inr (Rows mais_jogados, Rows maior_win, Rows maior_kpm))))"

section \<open>Report renderer\<close>

text \<open>
  The flowables \<^verbatim>\<open>create_pdf_report\<close> appends to \<^verbatim>\<open>elements\<close>, each with the rows its
  text, chart or table is made from. The formatting of the numbers and the drawing of the
  charts belong to the libraries and are not modelled.
\<close>

datatype element =
    Titulo
  | Spacer nat
  | Mapas_heading
  | Mapas_texto map_agg_row map_agg_row
  | Lados_heading
  | Lados_texto side_row side_row
  | Insights_heading string
  | Sem_dados_operadores
  | Operadores_texto op_player_row op_player_row
  | Operadores_imagem string "op_player_row list"
  | Mapas_grafico_heading
  | Mapas_imagem "map_agg_row list"
  | Lados_tabela_heading
  | Lados_tabela "side_row list"
  | Geral_heading
  | Sem_dados_gerais string
  | Geral_texto string overview_row

text \<open>Step 4.1: the best and the worst map, \<^verbatim>\<open>iloc[0]\<close> and \<^verbatim>\<open>iloc[-1]\<close> of the sorted frame.\<close>

definition mapas_section :: "map_agg_row list \<Rightarrow> element list" where
  "mapas_section maps =
     (case sort_values ma_winPct False maps of
        [] \<Rightarrow> []
      | melhor_mapa # rest \<Rightarrow>
          [Mapas_heading, Mapas_texto melhor_mapa (last (melhor_mapa # rest)), Spacer 6])"

text \<open>Step 4.2: the best and the worst side.\<close>

definition lados_section :: "side_row list \<Rightarrow> element list" where
  "lados_section sides =
     (case sort_values s_winPctSide False sides of
        [] \<Rightarrow> []
      | melhor_lado # rest \<Rightarrow>
          [Lados_heading, Lados_texto melhor_lado (last (melhor_lado # rest)), Spacer 12])"

text \<open>Step 5: the body of the loop over \<^verbatim>\<open>jogadores\<close>.\<close>

definition jogador_section :: "op_player_row list \<Rightarrow> string \<Rightarrow> element list" where
  "jogador_section ops player =
     (let df_ops_jog = filter (\<lambda>r. op_player r = player) ops in
      Insights_heading player #
        (case sort_values op_winPct False df_ops_jog of
           [] \<Rightarrow> [Sem_dados_operadores, Spacer 8]
         | top_op # rest \<Rightarrow>
             [Operadores_texto top_op (last (top_op # rest)), Spacer 12,
              Operadores_imagem player df_ops_jog, Spacer 12]))"

text \<open>Steps 6 and 7: the chart of the maps and the table of the sides.\<close>

definition mapas_grafico_section :: "map_agg_row list \<Rightarrow> element list" where
  "mapas_grafico_section maps =
     (if maps = [] then [] else [Mapas_grafico_heading, Mapas_imagem maps, Spacer 12])"

definition lados_tabela_section :: "side_row list \<Rightarrow> element list" where
  "lados_tabela_section sides =
     (if sides = [] then [] else [Lados_tabela_heading, Lados_tabela sides, Spacer 12])"

text \<open>Step 8: the body of the loop over \<^verbatim>\<open>overview_raw_by_player.items()\<close>.\<close>

definition geral_section :: "string \<times> overview_json \<Rightarrow> element list" where
  "geral_section item =
     (case rows_of (parse_overview_to_df (snd item) (fst item)) of
        [] \<Rightarrow> [Sem_dados_gerais (fst item)]
      | row # rest \<Rightarrow> [Geral_texto (fst item) row, Spacer 6])"

text \<open>
  Steps 2.1 to 2.4 filter the tables. The unknown-name filters look at the columns first
  (\<^verbatim>\<open>if "operatorName" in ops_df_agg_player.columns\<close>); the two threshold filters select
  the column \<^verbatim>\<open>matchesPlayed\<close> with no such test, which raises \<^verbatim>\<open>KeyError\<close> on a frame
  with no column.
\<close>

definition filter_ops :: "op_player_row dataframe \<Rightarrow> rat \<Rightarrow> error + op_player_row list" where
  "filter_ops ops_df_agg_player min_operator_matches =
     (case ops_df_agg_player of
        EmptyFrame \<Rightarrow> Inl KeyError
      | Rows rows \<Rightarrow>
          Inr (filter (\<lambda>r. op_matchesPlayed r \<ge> min_operator_matches)
                 (filter (\<lambda>r. lower (op_operatorName r) \<noteq> ''unknown'') rows)))"

definition filter_maps :: "map_agg_row dataframe \<Rightarrow> rat \<Rightarrow> error + map_agg_row list" where
  "filter_maps maps_df_agg min_map_matches =
     (case maps_df_agg of
        EmptyFrame \<Rightarrow> Inl KeyError
      | Rows rows \<Rightarrow>
          Inr (filter (\<lambda>r. ma_matchesPlayed r \<ge> min_map_matches)
                 (filter (\<lambda>r. lower (ma_mapName r) \<noteq> ''unknown'') rows)))"

definition filter_sides :: "side_row dataframe \<Rightarrow> side_row list" where
  "filter_sides sides_df_agg = filter (\<lambda>r. lower (s_side r) \<noteq> ''unknown'') (rows_of sides_df_agg)"

text \<open>
  The document: the filters, then the sections in their order. \<^verbatim>\<open>ops_df_agg_team\<close> is a
  parameter the body does not read.
\<close>

definition create_pdf_report ::
  "string list \<Rightarrow> (string \<times> overview_json) list \<Rightarrow> map_agg_row dataframe \<Rightarrow>
     op_player_row dataframe \<Rightarrow> op_team_row dataframe \<Rightarrow> side_row dataframe \<Rightarrow> rat \<Rightarrow> rat \<Rightarrow>
     error + element list" where
  "create_pdf_report jogadores overview_raw_by_player maps_df_agg ops_df_agg_player
       ops_df_agg_team sides_df_agg min_operator_matches min_map_matches =
     (case filter_ops ops_df_agg_player min_operator_matches of
        Inl e \<Rightarrow> Inl e
      | Inr ops \<Rightarrow>
          (case filter_maps maps_df_agg min_map_matches of
             Inl e \<Rightarrow> Inl e
           | Inr maps \<Rightarrow>
               (let sides = filter_sides sides_df_agg
                in Inr ([Titulo, Spacer 12]
                        @ mapas_section maps
                        @ lados_section sides
                        @ concat (map (jogador_section ops) jogadores)
                        @ mapas_grafico_section maps
                        @ lados_tabela_section sides
                        @ [Geral_heading]
                        @ concat (map geral_section overview_raw_by_player)))))"

text \<open>The operator rows and the map rows an element shows.\<close>

fun element_op_rows :: "element \<Rightarrow> op_player_row list" where
  "element_op_rows (Operadores_texto top_op bot_op) = [top_op, bot_op]"
| "element_op_rows (Operadores_imagem player rows) = rows"
| "element_op_rows e = []"

fun element_map_rows :: "element \<Rightarrow> map_agg_row list" where
  "element_map_rows (Mapas_texto melhor pior) = [melhor, pior]"
| "element_map_rows (Mapas_imagem rows) = rows"
| "element_map_rows e = []"

text \<open>The elements of the two map sections and of the two side sections.\<close>

fun is_map_element :: "element \<Rightarrow> bool" where
  "is_map_element Mapas_heading = True"
| "is_map_element (Mapas_texto melhor pior) = True"
| "is_map_element Mapas_grafico_heading = True"
| "is_map_element (Mapas_imagem rows) = True"
| "is_map_element e = False"

fun is_side_element :: "element \<Rightarrow> bool" where
  "is_side_element Lados_heading = True"
| "is_side_element (Lados_texto melhor pior) = True"
| "is_side_element Lados_tabela_heading = True"
| "is_side_element (Lados_tabela rows) = True"
| "is_side_element e = False"

section \<open>The pipeline of main\<close>

text \<open>
  What \<^verbatim>\<open>load_player_data\<close> returns for one player: each of the three files, or \<open>None\<close>
  for a file that does not exist.
\<close>

record player_data =
  pd_overview :: "overview_json option"
  pd_maps :: "map_entry list option"
  pd_ops :: "op_entry list option"

text \<open>Step 7.3: the frames of the selected players, concatenated.\<close>

definition overview_df_of :: "(string \<times> player_data) list \<Rightarrow> overview_row dataframe" where
  "overview_df_of players =
     concat_frames (concat (map (\<lambda>(player, d).
        case pd_overview d of None \<Rightarrow> [] | Some j \<Rightarrow> [parse_overview_to_df j player]) players))"

definition maps_df_of :: "(string \<times> player_data) list \<Rightarrow> map_row dataframe" where
  "maps_df_of players =
     concat_frames (concat (map (\<lambda>(player, d).
        case pd_maps d of None \<Rightarrow> [] | Some j \<Rightarrow> [parse_maps_to_df j player]) players))"

text \<open>
  The operator frames are made in the same loop; the first \<^verbatim>\<open>operators.json\<close> whose
  extraction raises ends main with that fault.
\<close>

fun ops_list_of :: "(string \<times> player_data) list \<Rightarrow> error + op_row dataframe list" where
  "ops_list_of [] = Inr []"
| "ops_list_of (item # players) =
     (case pd_ops (snd item) of
        None \<Rightarrow> ops_list_of players
      | Some ops_json \<Rightarrow>
          (case parse_operators_to_df ops_json (fst item) of
             Inl e \<Rightarrow> Inl e
           | Inr df_ops \<Rightarrow>
               (case ops_list_of players of
                  Inl e \<Rightarrow> Inl e
                | Inr ops_list \<Rightarrow> Inr (df_ops # ops_list))))"

definition ops_df_of :: "(string \<times> player_data) list \<Rightarrow> error + op_row dataframe" where
  "ops_df_of players =
     (case ops_list_of players of
        Inl e \<Rightarrow> Inl e
      | Inr ops_list \<Rightarrow> Inr (concat_frames ops_list))"

definition overview_raw_by_player_of :: "(string \<times> player_data) list \<Rightarrow> (string \<times> overview_json) list" where
  "overview_raw_by_player_of players =
     concat (map (\<lambda>(player, d). case pd_overview d of None \<Rightarrow> [] | Some j \<Rightarrow> [(player, j)]) players)"

text \<open>
  The side table main hands to the report:
  \<^verbatim>\<open>compute_side_performance(ops_df_agg_team) if not ops_df_agg_team.empty else pd.DataFrame()\<close>.
\<close>

definition sides_df_agg_of :: "op_team_row dataframe \<Rightarrow> error + side_row dataframe" where
  "sides_df_agg_of ops_df_agg_team =
     (if df_empty ops_df_agg_team then Inr EmptyFrame else compute_side_performance ops_df_agg_team)"

text \<open>
  The last block of main, under the button that generates the PDF report: the side table is
  computed and \<^verbatim>\<open>create_pdf_report\<close> is called on the tables of step 7.4. The block is a
  function of those tables. Whether main reaches it is not part of the model: main stops
  before it when no player is selected or when there is neither map nor operator data, and
  the tabs drawn before it can raise (the map tab selects columns of the \<^verbatim>\<open>pd.DataFrame()\<close>
  that \<^verbatim>\<open>compute_best_worst_maps\<close> returns when no map meets the threshold).
\<close>

definition main_pdf_button ::
  "string list \<Rightarrow> (string \<times> overview_json) list \<Rightarrow> map_agg_row dataframe \<Rightarrow>
     op_player_row dataframe \<Rightarrow> op_team_row dataframe \<Rightarrow> rat \<Rightarrow> rat \<Rightarrow> error + element list" where
  "main_pdf_button jogadores_selecionados overview_raw_by_player maps_df_agg ops_df_agg_player
       ops_df_agg_team min_operator_matches min_map_matches =
     (case sides_df_agg_of ops_df_agg_team of
        Inl e \<Rightarrow> Inl e
      | Inr sides_df_agg \<Rightarrow>
          create_pdf_report jogadores_selecionados overview_raw_by_player maps_df_agg
            ops_df_agg_player ops_df_agg_team sides_df_agg min_operator_matches min_map_matches)"

section \<open>Sample inputs\<close>

text \<open>
  Concrete records on which the theorems below are evaluated: participant \<open>A\<close> with 50
  matches played, 30 won, 200 kills and 150 deaths and no stored \<^verbatim>\<open>matchesLost\<close>; a
  map entry whose \<^verbatim>\<open>matchesWon\<close> is \<^verbatim>\<open>null\<close>; an operator entry for Ash whose
  \<^verbatim>\<open>kills\<close> entry has a \<^verbatim>\<open>null\<close> value.
\<close>

definition stat_of :: "rat \<Rightarrow> stat_entry field" where
  "stat_of v = Present \<lparr> se_value = Present v, se_displayName = Absent \<rparr>"

definition stats_A :: stats where
  "stats_A = (\<lambda>k. Absent)(''matchesPlayed'' := stat_of 50, ''matchesWon'' := stat_of 30,
                            ''kills'' := stat_of 200, ''deaths'' := stat_of 150)"

definition segment_A :: segment where
  "segment_A = \<lparr> seg_type = Present ''overview'', seg_stats = stats_A \<rparr>"

definition overview_A :: overview_json where
  "overview_A = \<lparr> segments = [\<lparr> seg_type = Present ''season'', seg_stats = (\<lambda>k. Absent) \<rparr>, segment_A] \<rparr>"

definition map_entry_bank :: map_entry where
  "map_entry_bank = \<lparr> me_metadata_mapName = Present ''Bank'', me_attributes_map = Absent,
       me_stats = (\<lambda>k. Absent)(''matchesPlayed'' := stat_of 1, ''matchesWon'' := Null) \<rparr>"

definition op_entry_ash :: "rat \<Rightarrow> rat \<Rightarrow> op_entry" where
  "op_entry_ash played won = \<lparr> oe_metadata_operatorName = Present ''Ash'', oe_attributes_operator = Absent,
       oe_attributes_side = Present ''attacker'',
       oe_stats = (\<lambda>k. Absent)(''matchesPlayed'' := stat_of played, ''matchesWon'' := stat_of won,
          ''kills'' := Present \<lparr> se_value = Null, se_displayName = Present ''Kills'' \<rparr>) \<rparr>"


text \<open>
  The map rows of two participants \<open>A\<close> and \<open>B\<close>, the three rows of their map aggregate,
  the operator rows of the two for Ash on the attacking side (40 and 60 matches played,
  20 and 45 won), and the two participants with the \<^verbatim>\<open>operators.json\<close> those rows are
  extracted from.
\<close>

definition maps_df_AB :: "map_row dataframe" where
  "maps_df_AB = Rows
     [\<lparr> m_player = ''A'', m_mapName = Some ''Bank'', m_matchesPlayed = 40, m_matchesWon = 20,
         m_winPct = 50, m_kills = 100, m_deaths = 80, m_kdRatio = 5 / 4 \<rparr>,
      \<lparr> m_player = ''A'', m_mapName = Some ''Oregon'', m_matchesPlayed = 5, m_matchesWon = 4,
         m_winPct = 80, m_kills = 10, m_deaths = 0, m_kdRatio = 0 \<rparr>,
      \<lparr> m_player = ''B'', m_mapName = Some ''Bank'', m_matchesPlayed = 60, m_matchesWon = 45,
         m_winPct = 75, m_kills = 150, m_deaths = 100, m_kdRatio = 3 / 2 \<rparr>,
      \<lparr> m_player = ''B'', m_mapName = Some ''Border'', m_matchesPlayed = 20, m_matchesWon = 5,
         m_winPct = 25, m_kills = 30, m_deaths = 40, m_kdRatio = 3 / 4 \<rparr>]"

definition agg_bank :: map_agg_row where
  "agg_bank = \<lparr> ma_mapName = ''Bank'', ma_matchesPlayed = 100, ma_matchesWon = 65, ma_kills = 250,
      ma_deaths = 180, ma_matchesLost = 35, ma_winPct = 65, ma_kdRatio = 25 / 18 \<rparr>"

definition agg_border :: map_agg_row where
  "agg_border = \<lparr> ma_mapName = ''Border'', ma_matchesPlayed = 20, ma_matchesWon = 5, ma_kills = 30,
      ma_deaths = 40, ma_matchesLost = 15, ma_winPct = 25, ma_kdRatio = 3 / 4 \<rparr>"

definition agg_oregon :: map_agg_row where
  "agg_oregon = \<lparr> ma_mapName = ''Oregon'', ma_matchesPlayed = 5, ma_matchesWon = 4, ma_kills = 10,
      ma_deaths = 0, ma_matchesLost = 1, ma_winPct = 80, ma_kdRatio = 0 \<rparr>"

definition ops_df_AB :: "op_row dataframe" where
  "ops_df_AB = Rows [op_row_of ''A'' ''Ash'' (op_entry_ash 40 20),
                     op_row_of ''B'' ''Ash'' (op_entry_ash 60 45)]"

definition players_AB :: "(string \<times> player_data) list" where
  "players_AB = [(''A'', \<lparr> pd_overview = None, pd_maps = None, pd_ops = Some [op_entry_ash 40 20] \<rparr>),
                 (''B'', \<lparr> pd_overview = None, pd_maps = None, pd_ops = Some [op_entry_ash 60 45] \<rparr>)]"

text \<open>
  An overview whose stored \<^verbatim>\<open>matchesLost\<close> is 7; a map entry that has \<^verbatim>\<open>matchesWon\<close> but
  no \<^verbatim>\<open>matchesPlayed\<close>, and the map rows of two participants made from it and from the
  entry above; an operator played in no match, and the team rows of the two operator tables.
\<close>

definition overview_C :: overview_json where
  "overview_C = \<lparr> segments = [\<lparr> seg_type = Present ''overview'',
       seg_stats = stats_A(''matchesLost'' := stat_of 7) \<rparr>] \<rparr>"

definition map_entry_won_only :: map_entry where
  "map_entry_won_only = \<lparr> me_metadata_mapName = Present ''Bank'', me_attributes_map = Absent,
       me_stats = (\<lambda>k. Absent)(''matchesWon'' := stat_of 3) \<rparr>"

definition maps_df_X :: "map_row dataframe" where
  "maps_df_X = concat_frames [parse_maps_to_df [map_entry_won_only] ''A'',
                              parse_maps_to_df [map_entry_bank] ''B'']"

definition ops_df_unplayed :: "op_row dataframe" where
  "ops_df_unplayed = Rows [op_row_of ''A'' ''Ash'' (op_entry_ash 0 0)]"

definition team_row_unplayed :: op_team_row where
  "team_row_unplayed = \<lparr> ot_operatorName = ''Ash'', ot_side = ''attacker'', ot_matchesPlayed = 0,
      ot_matchesWon = 0, ot_kills = 0, ot_deaths = 0, ot_matchesLost = 0, ot_winPct = 0,
      ot_kdRatio = 0, ot_killsPerMatch = None \<rparr>"

definition team_row_AB :: op_team_row where
  "team_row_AB = \<lparr> ot_operatorName = ''Ash'', ot_side = ''attacker'', ot_matchesPlayed = 100,
      ot_matchesWon = 65, ot_kills = 0, ot_deaths = 0, ot_matchesLost = 35, ot_winPct = 65,
      ot_kdRatio = 0, ot_killsPerMatch = Some 0 \<rparr>"

text \<open>
  Operator entries named \<^verbatim>\<open>Unknown\<close>, blank, \<^verbatim>\<open> UNKNOWN \<close>, \<^verbatim>\<open>Unknown\<close> after a
  no-break space, and not at all, beside the entry for Ash; a map entry with no name; a
  participant with all three files and one with \<^verbatim>\<open>operators.json\<close> only; the per-player
  operator rows of \<open>A\<close> and \<open>B\<close>; and the report of the two when no map and no side row is
  given and the operator threshold is 50.
\<close>

definition op_entry_named :: "string field \<Rightarrow> string field \<Rightarrow> op_entry" where
  "op_entry_named meta attr = \<lparr> oe_metadata_operatorName = meta, oe_attributes_operator = attr,
       oe_attributes_side = Absent, oe_stats = (\<lambda>k. Absent)(''matchesPlayed'' := stat_of 10) \<rparr>"

definition ops_json_A :: "op_entry list" where
  "ops_json_A = [op_entry_named (Present ''Unknown'') Absent,
                 op_entry_named (Present ''  '') (Present ''Sledge''),
                 op_entry_named Absent (Present '' UNKNOWN ''),
                 op_entry_named (Present (CHR 0xA0 # ''Unknown'')) Absent,
                 op_entry_named Absent Absent,
                 op_entry_ash 40 20]"

definition map_entry_unnamed :: map_entry where
  "map_entry_unnamed = \<lparr> me_metadata_mapName = Absent, me_attributes_map = Absent,
       me_stats = (\<lambda>k. Absent)(''matchesPlayed'' := stat_of 30, ''matchesWon'' := stat_of 10) \<rparr>"

definition players_A :: "(string \<times> player_data) list" where
  "players_A = [(''A'', \<lparr> pd_overview = Some overview_A,
                          pd_maps = Some [map_entry_unnamed, map_entry_bank],
                          pd_ops = Some ops_json_A \<rparr>)]"

definition players_no_maps :: "(string \<times> player_data) list" where
  "players_no_maps = [(''A'', \<lparr> pd_overview = None, pd_maps = None,
                                pd_ops = Some [op_entry_ash 40 20] \<rparr>)]"

definition player_row_A :: op_player_row where
  "player_row_A = \<lparr> op_player = ''A'', op_operatorName = ''Ash'', op_side = ''attacker'',
      op_matchesPlayed = 40, op_matchesWon = 20, op_kills = 0, op_deaths = 0, op_matchesLost = 20,
      op_winPct = 50, op_kdRatio = 0, op_killsPerMatch = Some 0 \<rparr>"

definition player_row_B :: op_player_row where
  "player_row_B = \<lparr> op_player = ''B'', op_operatorName = ''Ash'', op_side = ''attacker'',
      op_matchesPlayed = 60, op_matchesWon = 45, op_kills = 0, op_deaths = 0, op_matchesLost = 15,
      op_winPct = 75, op_kdRatio = 0, op_killsPerMatch = Some 0 \<rparr>"

definition report_AB :: "element list" where
  "report_AB = [Titulo, Spacer 12,
                Insights_heading ''A'', Sem_dados_operadores, Spacer 8,
                Insights_heading ''B'', Operadores_texto player_row_B player_row_B, Spacer 12,
                Operadores_imagem ''B'' [player_row_B], Spacer 12,
                Geral_heading]"

text \<open>The side row of the two participants' operator rows.\<close>

definition side_row_AB :: side_row where
  "side_row_AB = \<lparr> s_side = ''attacker'', s_matchesPlayed = 100, s_matchesWon = 65,
      s_matchesLost = 35, s_winPctSide = 65 \<rparr>"



definition op_entry_null_name :: op_entry where
  "op_entry_null_name = \<lparr> oe_metadata_operatorName = Null, oe_attributes_operator = Present ''Ash'',
       oe_attributes_side = Present ''attacker'',
       oe_stats = (\<lambda>k. Absent)(''matchesPlayed'' := stat_of 7) \<rparr>"



text \<open>
  Map rows for Bank (40 played, 20 won) and for Oregon with 3 matches won and none played.
\<close>

definition maps_df_mixed :: "map_row dataframe" where
  "maps_df_mixed = Rows
     [\<lparr> m_player = ''A'', m_mapName = Some ''Bank'', m_matchesPlayed = 40, m_matchesWon = 20,
         m_winPct = 50, m_kills = 100, m_deaths = 80, m_kdRatio = 5 / 4 \<rparr>,
      \<lparr> m_player = ''A'', m_mapName = Some ''Oregon'', m_matchesPlayed = 0, m_matchesWon = 3,
         m_winPct = 0, m_kills = 0, m_deaths = 0, m_kdRatio = 0 \<rparr>]"

section \<open>Facts about the tables and the extractors\<close>

lemma get_stat_missing: "stat_missing stats key \<Longrightarrow> get_stat stats key = 0"
  by (auto simp: stat_missing_def get_stat_def split: field.splits)

lemma rows_of_DataFrame: "rows_of (DataFrame rows) = rows"
  by (simp add: DataFrame_def)

lemma rows_of_concat_frames: "rows_of (concat_frames frames) = concat (map rows_of frames)"
proof (cases "list_all (\<lambda>f. f = EmptyFrame) frames")
  case True
  then have "\<forall>f\<in>set frames. rows_of f = []" by (auto simp: list_all_iff)
  then have "concat (map rows_of frames) = []" by simp
  with True show ?thesis by (simp add: concat_frames_def)
next
  case False
  then show ?thesis by (simp add: concat_frames_def)
qed

lemma overview_row_default:
  assumes "find_overview (segments ov) = Some seg"
  shows "\<exists>r. parse_overview_to_df ov p = Rows [r] \<and>
           (\<forall>(k, col)\<in>set overview_columns. stat_missing (seg_stats seg) k \<longrightarrow> col r = 0)"
  using assms by (simp add: parse_overview_to_df_def overview_columns_def get_stat_missing Let_def)

lemma map_row_default:
  "\<forall>(k, col)\<in>set map_columns. stat_missing (me_stats e) k \<longrightarrow> col (map_row_of p e) = 0"
  by (simp add: map_row_of_def map_columns_def get_stat_missing Let_def)

lemma op_row_default:
  "\<forall>(k, col)\<in>set op_columns. stat_missing (oe_stats e) k \<longrightarrow> col (op_row_of p n e) = 0"
  by (simp add: op_row_of_def op_columns_def get_stat_missing Let_def)

lemma op_name_of_Inl: "op_name_of e = Inl x \<Longrightarrow> x = AttributeError"
  by (auto simp: op_name_of_def split: field.splits)

lemma parse_operators_rows_eq:
  "parse_operators_rows ops_json p =
     (if list_ex (\<lambda>e. op_name_of e = Inl AttributeError) ops_json then Inl AttributeError
      else Inr (concat (map (\<lambda>e. case op_name_of e of
                                      Inr n \<Rightarrow> (if op_kept n then [op_row_of p n e] else [])
                                    | Inl x \<Rightarrow> []) ops_json)))"
proof (induction ops_json)
  case Nil
  then show ?case by simp
next
  case (Cons e es)
  show ?case
  proof (cases "op_name_of e")
    case (Inl x)
    with op_name_of_Inl have "op_name_of e = Inl AttributeError" by blast
    then show ?thesis by simp
  next
    case (Inr n)
    with Cons show ?thesis by simp
  qed
qed

lemma parse_operators_to_df_eq:
  "parse_operators_to_df ops_json p =
     (if list_ex (\<lambda>e. op_name_of e = Inl AttributeError) ops_json then Inl AttributeError
      else Inr (DataFrame (concat (map (\<lambda>e. case op_name_of e of
                                      Inr n \<Rightarrow> (if op_kept n then [op_row_of p n e] else [])
                                    | Inl x \<Rightarrow> []) ops_json))))"
  by (simp add: parse_operators_to_df_def parse_operators_rows_eq)


subsection \<open>Grouping and sorting\<close>





lemma set_group_keys: "set (group_keys key rows) = {k. \<exists>r\<in>set rows. key r = Some k}"
  by (force simp: group_keys_def List.map_filter_def)

lemma map_filter_map: "List.map_filter key (map g xs) = List.map_filter (\<lambda>x. key (g x)) xs"
  by (simp add: List.map_filter_def filter_map comp_def)

lemma key_operator_side_update:
  "key_operator_side (r\<lparr> o_winPct := w, o_kdRatio := d \<rparr>) = key_operator_side r"
  by (simp add: key_operator_side_def split: option.splits)

lemma key_player_operator_side_update:
  "key_player_operator_side (r\<lparr> o_winPct := w, o_kdRatio := d \<rparr>) = key_player_operator_side r"
  by (simp add: key_player_operator_side_def split: option.splits)


lemma mset_sort_values: "mset (sort_values c a xs) = mset xs"
  by (simp add: sort_values_def)

lemma set_sort_values: "set (sort_values c a xs) = set xs"
  by (simp add: sort_values_def)

lemma sorted_sort_values_asc: "sorted (map c (sort_values c True xs))"
  by (simp add: sort_values_def)

lemma sorted_sort_values_desc: "sorted_wrt (\<lambda>x y. x \<ge> y) (map c (sort_values c False xs))"
proof -
  have "sorted (map (\<lambda>r. - c r) (sort_key (\<lambda>r. - c r) xs))" by simp
  then have "sorted_wrt (\<lambda>x y. - c x \<le> - c y) (sort_key (\<lambda>r. - c r) xs)"
    by (simp add: sorted_wrt_map)
  then show ?thesis by (simp add: sort_values_def sorted_wrt_map)
qed


subsection \<open>Rows and totals of the aggregates\<close>



lemma maps_agg_rows:
  "r \<in> set (rows_of (maps_df_agg_of maps_df)) \<Longrightarrow>
     \<exists>k. (\<exists>x\<in>set (rows_of maps_df). m_mapName x = Some k) \<and> r = map_agg_row_of (rows_of maps_df) k"
  by (auto simp: maps_df_agg_of_def set_group_keys split: if_splits)

lemma ops_team_rows:
  "r \<in> set (rows_of (ops_df_agg_team_of ops_df)) \<Longrightarrow>
     \<exists>k. (\<exists>x\<in>set (rows_of ops_df). key_operator_side x = Some k)
        \<and> r = op_team_row_of (rows_of ops_df) k"
  by (auto simp: ops_df_agg_team_of_def set_group_keys split: if_splits)

lemma ops_player_rows:
  "r \<in> set (rows_of (ops_df_agg_player_of ops_df)) \<Longrightarrow>
     \<exists>k. (\<exists>x\<in>set (rows_of ops_df). key_player_operator_side x = Some k)
        \<and> r = op_player_row_of (rows_of ops_df) k"
  by (auto simp: ops_df_agg_player_of_def set_group_keys split: if_splits)

lemma team_overview_rows:
  "r \<in> set (rows_of (df_overview_equipe_of overview_df)) \<Longrightarrow>
     eq_matchesPlayed r = sum_list (map ov_matchesPlayed (rows_of overview_df))
   \<and> eq_matchesWon r = sum_list (map ov_matchesWon (rows_of overview_df))
   \<and> eq_matchesLost r = sum_list (map ov_matchesLost (rows_of overview_df))
   \<and> eq_kills r = sum_list (map ov_kills (rows_of overview_df))
   \<and> eq_deaths r = sum_list (map ov_deaths (rows_of overview_df))
   \<and> eq_winPct r = win_pct (eq_matchesWon r) (eq_matchesPlayed r)
   \<and> eq_kdRatio r = kd_ratio (eq_kills r) (eq_deaths r)"
  by (auto simp: df_overview_equipe_of_def Let_def split: if_splits)

lemma map_agg_row_fields:
  "ma_mapName (map_agg_row_of rows k) = k
 \<and> ma_matchesPlayed (map_agg_row_of rows k) = sum_list (map m_matchesPlayed (group_of m_mapName rows k))
 \<and> ma_matchesWon (map_agg_row_of rows k) = sum_list (map m_matchesWon (group_of m_mapName rows k))
 \<and> ma_kills (map_agg_row_of rows k) = sum_list (map m_kills (group_of m_mapName rows k))
 \<and> ma_deaths (map_agg_row_of rows k) = sum_list (map m_deaths (group_of m_mapName rows k))
 \<and> ma_matchesLost (map_agg_row_of rows k) = ma_matchesPlayed (map_agg_row_of rows k) - ma_matchesWon (map_agg_row_of rows k)
 \<and> ma_winPct (map_agg_row_of rows k) = win_pct (ma_matchesWon (map_agg_row_of rows k)) (ma_matchesPlayed (map_agg_row_of rows k))
 \<and> ma_kdRatio (map_agg_row_of rows k) = kd_ratio (ma_kills (map_agg_row_of rows k)) (ma_deaths (map_agg_row_of rows k))"
  by (simp add: map_agg_row_of_def Let_def)

lemma op_team_row_fields:
  "ot_operatorName (op_team_row_of rows k) = fst k \<and> ot_side (op_team_row_of rows k) = snd k
 \<and> ot_matchesPlayed (op_team_row_of rows k) = sum_list (map o_matchesPlayed (group_of key_operator_side rows k))
 \<and> ot_matchesWon (op_team_row_of rows k) = sum_list (map o_matchesWon (group_of key_operator_side rows k))
 \<and> ot_kills (op_team_row_of rows k) = sum_list (map o_kills (group_of key_operator_side rows k))
 \<and> ot_deaths (op_team_row_of rows k) = sum_list (map o_deaths (group_of key_operator_side rows k))
 \<and> ot_matchesLost (op_team_row_of rows k) = ot_matchesPlayed (op_team_row_of rows k) - ot_matchesWon (op_team_row_of rows k)
 \<and> ot_winPct (op_team_row_of rows k) = win_pct (ot_matchesWon (op_team_row_of rows k)) (ot_matchesPlayed (op_team_row_of rows k))
 \<and> ot_kdRatio (op_team_row_of rows k) = kd_ratio (ot_kills (op_team_row_of rows k)) (ot_deaths (op_team_row_of rows k))
 \<and> ot_killsPerMatch (op_team_row_of rows k) = kills_per_match (ot_kills (op_team_row_of rows k)) (ot_matchesPlayed (op_team_row_of rows k))"
  by (simp add: op_team_row_of_def Let_def)

lemma op_player_row_fields:
  "op_player (op_player_row_of rows k) = fst k \<and> op_operatorName (op_player_row_of rows k) = fst (snd k)
 \<and> op_side (op_player_row_of rows k) = snd (snd k)
 \<and> op_matchesPlayed (op_player_row_of rows k) = sum_list (map o_matchesPlayed (group_of key_player_operator_side rows k))
 \<and> op_matchesWon (op_player_row_of rows k) = sum_list (map o_matchesWon (group_of key_player_operator_side rows k))
 \<and> op_kills (op_player_row_of rows k) = sum_list (map o_kills (group_of key_player_operator_side rows k))
 \<and> op_deaths (op_player_row_of rows k) = sum_list (map o_deaths (group_of key_player_operator_side rows k))
 \<and> op_matchesLost (op_player_row_of rows k) = op_matchesPlayed (op_player_row_of rows k) - op_matchesWon (op_player_row_of rows k)
 \<and> op_winPct (op_player_row_of rows k) = win_pct (op_matchesWon (op_player_row_of rows k)) (op_matchesPlayed (op_player_row_of rows k))
 \<and> op_kdRatio (op_player_row_of rows k) = kd_ratio (op_kills (op_player_row_of rows k)) (op_deaths (op_player_row_of rows k))
 \<and> op_killsPerMatch (op_player_row_of rows k) = kills_per_match (op_kills (op_player_row_of rows k)) (op_matchesPlayed (op_player_row_of rows k))"
  by (simp add: op_player_row_of_def Let_def)


subsection \<open>Ranking, sides and the win percentage\<close>

lemma set_head: "set (head n xs) \<subseteq> set xs"
  by (auto simp: head_def dest: in_set_takeD)

lemma set_sort_values_na: "set (sort_values_na c a xs) = set xs"
  by (auto simp: sort_values_na_def set_sort_values)

lemma sides_df_agg_of_Inr:
  "\<exists>sides. sides_df_agg_of team = Inr sides \<and>
     (\<forall>s\<in>set (rows_of sides). \<exists>k. s = side_row_of (rows_of team) k)"
  by (cases team) (auto simp: sides_df_agg_of_def compute_side_performance_def set_sort_values)

lemma win_pct_zero: "win_pct w 0 = 0"
  by (simp add: win_pct_def)

lemma win_pct_range:
  assumes "0 \<le> w" "w \<le> p" "0 < p"
  shows "0 \<le> win_pct w p \<and> win_pct w p \<le> 100"
proof -
  from assms have "w / p \<le> 1" by simp
  then have "w / p * 100 \<le> 1 * 100" by (intro mult_right_mono) simp_all
  moreover from assms have "0 \<le> w / p * 100" by simp
  ultimately show ?thesis using assms by (simp add: win_pct_def)
qed

lemma sum_list_between:
  "\<forall>r\<in>set g. 0 \<le> f r \<and> f r \<le> h r \<Longrightarrow>
     0 \<le> sum_list (map f g) \<and> sum_list (map f g) \<le> (sum_list (map h g) :: rat)"
  by (induction g) auto

lemma win_pct_between:
  assumes "\<forall>r\<in>set g. 0 \<le> f r \<and> f r \<le> h r" and "0 < sum_list (map h g)"
  shows "0 \<le> win_pct (sum_list (map f g)) (sum_list (map h g))
       \<and> win_pct (sum_list (map f g)) (sum_list (map h g)) \<le> 100"
  using sum_list_between [OF assms(1)] assms(2) win_pct_range by blast

lemma team_rows_between:
  assumes h: "\<forall>r\<in>set (rows_of ops_df). o_side r = Some k \<longrightarrow>
                0 \<le> o_matchesWon r \<and> o_matchesWon r \<le> o_matchesPlayed r"
  shows "\<forall>t\<in>set (group_of key_side (rows_of (ops_df_agg_team_of ops_df)) k).
           0 \<le> ot_matchesWon t \<and> ot_matchesWon t \<le> ot_matchesPlayed t"
proof
  fix t assume "t \<in> set (group_of key_side (rows_of (ops_df_agg_team_of ops_df)) k)"
  then have t: "t \<in> set (rows_of (ops_df_agg_team_of ops_df))" and s: "ot_side t = k"
    by (auto simp: group_of_def key_side_def)
  from t obtain j where r: "t = op_team_row_of (rows_of ops_df) j" using ops_team_rows by blast
  with s have j: "snd j = k" by (simp add: op_team_row_fields)
  have "\<forall>r\<in>set (group_of key_operator_side (rows_of ops_df) j).
          0 \<le> o_matchesWon r \<and> o_matchesWon r \<le> o_matchesPlayed r"
    using h j by (auto simp: group_of_def key_operator_side_def split: option.splits)
  from sum_list_between [OF this] r
  show "0 \<le> ot_matchesWon t \<and> ot_matchesWon t \<le> ot_matchesPlayed t"
    by (simp add: op_team_row_fields)
qed

lemma side_row_fields:
  "s_side (side_row_of rows k) = k
 \<and> s_matchesPlayed (side_row_of rows k) = sum_list (map ot_matchesPlayed (group_of key_side rows k))
 \<and> s_matchesWon (side_row_of rows k) = sum_list (map ot_matchesWon (group_of key_side rows k))
 \<and> s_matchesLost (side_row_of rows k) = s_matchesPlayed (side_row_of rows k) - s_matchesWon (side_row_of rows k)
 \<and> s_winPctSide (side_row_of rows k) = win_pct (s_matchesWon (side_row_of rows k)) (s_matchesPlayed (side_row_of rows k))"
  by (simp add: side_row_of_def Let_def)

lemma side_win_pct:
  "\<exists>sides. sides_df_agg_of (ops_df_agg_team_of ops_df) = Inr sides
     \<and> (\<forall>s\<in>set (rows_of sides).
          (s_matchesPlayed s = 0 \<longrightarrow> s_winPctSide s = 0)
        \<and> ((\<forall>r\<in>set (rows_of ops_df). o_side r = Some (s_side s) \<longrightarrow>
                 0 \<le> o_matchesWon r \<and> o_matchesWon r \<le> o_matchesPlayed r) \<longrightarrow>
             (0 < s_matchesPlayed s \<longrightarrow> 0 \<le> s_winPctSide s \<and> s_winPctSide s \<le> 100)))"
proof -
  let ?team = "ops_df_agg_team_of ops_df"
  obtain sides where s: "sides_df_agg_of ?team = Inr sides"
    and k: "\<forall>s\<in>set (rows_of sides). \<exists>k. s = side_row_of (rows_of ?team) k"
    using sides_df_agg_of_Inr by blast
  have "\<forall>x\<in>set (rows_of sides).
          (s_matchesPlayed x = 0 \<longrightarrow> s_winPctSide x = 0)
        \<and> ((\<forall>r\<in>set (rows_of ops_df). o_side r = Some (s_side x) \<longrightarrow>
                 0 \<le> o_matchesWon r \<and> o_matchesWon r \<le> o_matchesPlayed r) \<longrightarrow>
             (0 < s_matchesPlayed x \<longrightarrow> 0 \<le> s_winPctSide x \<and> s_winPctSide x \<le> 100))"
  proof
    fix x assume x: "x \<in> set (rows_of sides)"
    from k x obtain j where j: "x = side_row_of (rows_of ?team) j" by blast
    have z: "s_matchesPlayed x = 0 \<longrightarrow> s_winPctSide x = 0"
      using j side_row_fields win_pct_zero by metis
    have b: "(\<forall>r\<in>set (rows_of ops_df). o_side r = Some (s_side x) \<longrightarrow>
                 0 \<le> o_matchesWon r \<and> o_matchesWon r \<le> o_matchesPlayed r) \<longrightarrow>
             (0 < s_matchesPlayed x \<longrightarrow> 0 \<le> s_winPctSide x \<and> s_winPctSide x \<le> 100)"
    proof (intro impI)
      assume h: "\<forall>r\<in>set (rows_of ops_df). o_side r = Some (s_side x) \<longrightarrow>
                 0 \<le> o_matchesWon r \<and> o_matchesWon r \<le> o_matchesPlayed r"
        and p: "0 < s_matchesPlayed x"
      from j have sj: "s_side x = j" by (simp add: side_row_fields)
      from h sj have h': "\<forall>r\<in>set (rows_of ops_df). o_side r = Some j \<longrightarrow>
                 0 \<le> o_matchesWon r \<and> o_matchesWon r \<le> o_matchesPlayed r" by simp
      from p j have p': "0 < sum_list (map ot_matchesPlayed (group_of key_side (rows_of ?team) j))"
        by (simp add: side_row_fields)
      from win_pct_between [OF team_rows_between [OF h'] p'] j
      show "0 \<le> s_winPctSide x \<and> s_winPctSide x \<le> 100" by (simp add: side_row_fields)
    qed
    from z b show "(s_matchesPlayed x = 0 \<longrightarrow> s_winPctSide x = 0)
        \<and> ((\<forall>r\<in>set (rows_of ops_df). o_side r = Some (s_side x) \<longrightarrow>
                 0 \<le> o_matchesWon r \<and> o_matchesWon r \<le> o_matchesPlayed r) \<longrightarrow>
             (0 < s_matchesPlayed x \<longrightarrow> 0 \<le> s_winPctSide x \<and> s_winPctSide x \<le> 100))"
      by blast
  qed
  with s show ?thesis by blast
qed


subsection \<open>The sample tables, evaluated\<close>

lemma parse_operators_ash:
  "parse_operators_to_df [op_entry_ash played won] p = Inr (Rows [op_row_of p ''Ash'' (op_entry_ash played won)])"
proof -
  have "op_name_of (op_entry_ash played won) = Inr ''Ash''"
    by (simp add: op_name_of_def op_entry_ash_def strip_def is_space_def)
  moreover have "op_kept ''Ash''" by code_simp
  ultimately show ?thesis by (simp add: parse_operators_to_df_def DataFrame_def)
qed

lemma ops_df_of_players_AB: "ops_df_of players_AB = Inr ops_df_AB"
  by (simp add: ops_df_of_def players_AB_def parse_operators_ash concat_frames_def ops_df_AB_def)

lemma sides_AB: "sides_df_agg_of (ops_df_agg_team_of ops_df_AB) = Inr (Rows [side_row_AB])"
  by code_simp

lemma rows_ops_team_unplayed: "rows_of (ops_df_agg_team_of ops_df_unplayed) = [team_row_unplayed]"
  by code_simp

lemma rows_ops_team_AB: "rows_of (ops_df_agg_team_of ops_df_AB) = [team_row_AB]"
  by code_simp

lemma rows_maps_df_agg_AB:
  "rows_of (maps_df_agg_of maps_df_AB) = [agg_bank, agg_border, agg_oregon]"
  by code_simp

subsection \<open>Operator names and the sections of the report\<close>

lemma parse_operators_rows_names:
  "parse_operators_rows ops_json p = Inr rows \<Longrightarrow> r \<in> set rows \<Longrightarrow>
     o_operatorName r \<noteq> [] \<and> lower (o_operatorName r) \<noteq> ''unknown''"
proof (induction ops_json arbitrary: rows)
  case Nil
  then show ?case by simp
next
  case (Cons e es)
  then show ?case
    by (auto simp: op_kept_def op_row_of_def Let_def split: sum.splits if_splits)
qed

lemma parse_operators_names:
  "parse_operators_to_df ops_json p = Inr df \<Longrightarrow> r \<in> set (rows_of df) \<Longrightarrow>
     o_operatorName r \<noteq> [] \<and> lower (o_operatorName r) \<noteq> ''unknown''"
  by (auto simp: parse_operators_to_df_def rows_of_DataFrame split: sum.splits
      dest: parse_operators_rows_names)

lemma ops_list_of_names:
  "ops_list_of players = Inr frames \<Longrightarrow> f \<in> set frames \<Longrightarrow> r \<in> set (rows_of f) \<Longrightarrow>
     o_operatorName r \<noteq> [] \<and> lower (o_operatorName r) \<noteq> ''unknown''"
proof (induction players arbitrary: frames)
  case Nil
  then show ?case by simp
next
  case (Cons item players)
  show ?case
  proof (cases "pd_ops (snd item)")
    case None
    with Cons show ?thesis by simp
  next
    case (Some ops_json)
    with Cons.prems(1) obtain df_ops ops_list where
      d: "parse_operators_to_df ops_json (fst item) = Inr df_ops"
      and l: "ops_list_of players = Inr ops_list" and fr: "frames = df_ops # ops_list"
      by (auto split: sum.splits)
    from Cons.prems(2) fr have "f = df_ops \<or> f \<in> set ops_list" by simp
    then show ?thesis
    proof
      assume "f = df_ops"
      with d Cons.prems(3) show ?thesis using parse_operators_names by blast
    next
      assume "f \<in> set ops_list"
      with Cons.IH [OF l] Cons.prems(3) show ?thesis by blast
    qed
  qed
qed

lemma ops_df_of_names:
  "ops_df_of players = Inr ops_df \<Longrightarrow> r \<in> set (rows_of ops_df) \<Longrightarrow>
     o_operatorName r \<noteq> [] \<and> lower (o_operatorName r) \<noteq> ''unknown''"
  by (auto simp: ops_df_of_def rows_of_concat_frames split: sum.splits dest: ops_list_of_names)

lemma ops_team_names:
  assumes "r \<in> set (rows_of (ops_df_agg_team_of ops_df))"
  shows "\<exists>x\<in>set (rows_of ops_df). ot_operatorName r = o_operatorName x"
proof -
  from assms obtain k x where x: "x \<in> set (rows_of ops_df)" and k: "key_operator_side x = Some k"
    and r: "r = op_team_row_of (rows_of ops_df) k" using ops_team_rows by blast
  from r have "ot_operatorName r = fst k" by (simp add: op_team_row_fields)
  moreover from k have "fst k = o_operatorName x"
    by (auto simp: key_operator_side_def split: option.splits)
  ultimately show ?thesis using x by auto
qed

lemma ops_player_names:
  assumes "r \<in> set (rows_of (ops_df_agg_player_of ops_df))"
  shows "\<exists>x\<in>set (rows_of ops_df). op_operatorName r = o_operatorName x"
proof -
  from assms obtain k x where x: "x \<in> set (rows_of ops_df)" and k: "key_player_operator_side x = Some k"
    and r: "r = op_player_row_of (rows_of ops_df) k" using ops_player_rows by blast
  from r have "op_operatorName r = fst (snd k)" by (simp add: op_player_row_fields)
  moreover from k have "fst (snd k) = o_operatorName x"
    by (auto simp: key_player_operator_side_def split: option.splits)
  ultimately show ?thesis using x by auto
qed

lemma sort_values_Nil: "sort_values c a [] = []"
  by (simp add: sort_values_def)

lemma sort_values_Cons_mem:
  "sort_values c a xs = y # ys \<Longrightarrow> y \<in> set xs \<and> last (y # ys) \<in> set xs"
  by (metis last_in_set list.distinct(1) list.set_intros(1) set_sort_values)

lemma mapas_section_rows:
  assumes "e \<in> set (mapas_section maps)"
  shows "element_op_rows e = [] \<and> set (element_map_rows e) \<subseteq> set maps \<and> \<not> is_side_element e"
proof (cases "sort_values ma_winPct False maps")
  case Nil
  with assms show ?thesis by (simp add: mapas_section_def)
next
  case (Cons y ys)
  from sort_values_Cons_mem [OF Cons] have m: "y \<in> set maps" "last (y # ys) \<in> set maps" by blast+
  from assms Cons have "e = Mapas_heading \<or> e = Mapas_texto y (last (y # ys)) \<or> e = Spacer 6"
    by (simp add: mapas_section_def del: last.simps)
  with m show ?thesis by auto
qed

lemma lados_section_rows:
  "e \<in> set (lados_section sides) \<Longrightarrow>
     element_op_rows e = [] \<and> element_map_rows e = [] \<and> \<not> is_map_element e"
  by (auto simp: lados_section_def split: list.splits)

lemma jogador_section_rows:
  "e \<in> set (jogador_section ops player) \<Longrightarrow>
     set (element_op_rows e) \<subseteq> set ops \<and> element_map_rows e = []
   \<and> \<not> is_map_element e \<and> \<not> is_side_element e"
  by (auto simp: jogador_section_def Let_def split: list.splits dest!: sort_values_Cons_mem)

lemma mapas_grafico_section_rows:
  "e \<in> set (mapas_grafico_section maps) \<Longrightarrow>
     element_op_rows e = [] \<and> set (element_map_rows e) \<subseteq> set maps \<and> \<not> is_side_element e"
  by (auto simp: mapas_grafico_section_def split: if_splits)

lemma lados_tabela_section_rows:
  "e \<in> set (lados_tabela_section sides) \<Longrightarrow>
     element_op_rows e = [] \<and> element_map_rows e = [] \<and> \<not> is_map_element e"
  by (auto simp: lados_tabela_section_def split: if_splits)

lemma geral_section_rows:
  "e \<in> set (geral_section item) \<Longrightarrow>
     element_op_rows e = [] \<and> element_map_rows e = [] \<and> \<not> is_map_element e \<and> \<not> is_side_element e"
  by (auto simp: geral_section_def split: list.splits)

lemma create_pdf_report_Inr:
  assumes "create_pdf_report js ov maps_df ops_df team sides t_op t_map = Inr els"
  obtains ops maps where "filter_ops ops_df t_op = Inr ops" "filter_maps maps_df t_map = Inr maps"
    "els = [Titulo, Spacer 12] @ mapas_section maps @ lados_section (filter_sides sides)
        @ concat (map (jogador_section ops) js) @ mapas_grafico_section maps
        @ lados_tabela_section (filter_sides sides) @ [Geral_heading] @ concat (map geral_section ov)"
  using assms by (auto simp: create_pdf_report_def Let_def split: sum.splits)

lemma rendered_rows:
  assumes "create_pdf_report js ov maps_df ops_df team sides t_op t_map = Inr els"
    and "e \<in> set els"
  shows "(\<forall>r\<in>set (element_op_rows e). lower (op_operatorName r) \<noteq> ''unknown'' \<and> r \<in> set (rows_of ops_df))
       \<and> (\<forall>r\<in>set (element_map_rows e). lower (ma_mapName r) \<noteq> ''unknown'' \<and> r \<in> set (rows_of maps_df))"
proof -
  from assms(1) obtain ops maps where o: "filter_ops ops_df t_op = Inr ops"
    and m: "filter_maps maps_df t_map = Inr maps"
    and els: "els = [Titulo, Spacer 12] @ mapas_section maps @ lados_section (filter_sides sides)
        @ concat (map (jogador_section ops) js) @ mapas_grafico_section maps
        @ lados_tabela_section (filter_sides sides) @ [Geral_heading] @ concat (map geral_section ov)"
    by (rule create_pdf_report_Inr)
  from o have ops: "\<forall>r\<in>set ops. lower (op_operatorName r) \<noteq> ''unknown'' \<and> r \<in> set (rows_of ops_df)"
    by (auto simp: filter_ops_def split: dataframe.splits)
  from m have maps: "\<forall>r\<in>set maps. lower (ma_mapName r) \<noteq> ''unknown'' \<and> r \<in> set (rows_of maps_df)"
    by (auto simp: filter_maps_def split: dataframe.splits)
  from assms(2) els have "set (element_op_rows e) \<subseteq> set ops \<and> set (element_map_rows e) \<subseteq> set maps"
    using mapas_section_rows lados_section_rows jogador_section_rows mapas_grafico_section_rows
      lados_tabela_section_rows geral_section_rows
    by (fastforce simp: subset_iff)
  with ops maps show ?thesis by blast
qed

lemma main_pdf_button_Inr:
  assumes "main_pdf_button js ov maps_df ops_df team t_op t_map = Inr els"
  shows "\<exists>sides. create_pdf_report js ov maps_df ops_df team sides t_op t_map = Inr els"
  using assms by (auto simp: main_pdf_button_def split: sum.splits)

lemma jogador_section_no_data:
  "filter (\<lambda>r. op_player r = player) ops = [] \<Longrightarrow>
     jogador_section ops player = [Insights_heading player, Sem_dados_operadores, Spacer 8]"
  by (simp add: jogador_section_def sort_values_Nil)

lemma mapas_sections_Nil: "mapas_section [] = [] \<and> mapas_grafico_section [] = []"
  by (simp add: mapas_section_def mapas_grafico_section_def sort_values_Nil)

lemma lados_sections_Nil: "lados_section [] = [] \<and> lados_tabela_section [] = []"
  by (simp add: lados_section_def lados_tabela_section_def sort_values_Nil)

lemma rows_maps_df_agg_mixed:
  "map (\<lambda>a. (ma_mapName a, ma_matchesPlayed a, ma_matchesWon a, ma_winPct a))
       (rows_of (maps_df_agg_of maps_df_mixed))
     = [(''Bank'', 40, 20, 50), (''Oregon'', 0, 3, 0)]"
  by code_simp


section \<open>Missing statistics are zero\<close>

text \<open>
  Claim C8. In each of the three extractors (overview, map, operator), a statistic whose key
  is not in the record's \<^verbatim>\<open>stats\<close> object, or whose value is \<^verbatim>\<open>null\<close>, gives 0 in the
  column of the extracted row that the key feeds. The overview extractor yields one row
  when an overview segment exists; the map extractor one row per entry; the operator
  extractor one row per entry it keeps, in the order of the entries, unless the name of an
  entry is \<^verbatim>\<open>null\<close>, in which case it raises \<^verbatim>\<open>AttributeError\<close>.
\<close>

theorem extractors_default_zero:
  "(find_overview (segments ov) = Some seg \<longrightarrow>
      (\<exists>r. parse_overview_to_df ov p = Rows [r] \<and>
         (\<forall>(k, col)\<in>set overview_columns. stat_missing (seg_stats seg) k \<longrightarrow> col r = 0)))
   \<and> rows_of (parse_maps_to_df maps_json p) = map (map_row_of p) maps_json
   \<and> (\<forall>(k, col)\<in>set map_columns. stat_missing (me_stats me) k \<longrightarrow> col (map_row_of p me) = 0)
   \<and> parse_operators_to_df ops_json p =
       (if list_ex (\<lambda>e. op_name_of e = Inl AttributeError) ops_json then Inl AttributeError
        else Inr (DataFrame (concat (map (\<lambda>e. case op_name_of e of
                                        Inr n \<Rightarrow> (if op_kept n then [op_row_of p n e] else [])
                                      | Inl x \<Rightarrow> []) ops_json))))
   \<and> (\<forall>(k, col)\<in>set op_columns. stat_missing (oe_stats oe) k \<longrightarrow> col (op_row_of p n oe) = 0)"
proof (intro conjI)
  show "find_overview (segments ov) = Some seg \<longrightarrow>
      (\<exists>r. parse_overview_to_df ov p = Rows [r] \<and>
         (\<forall>(k, col)\<in>set overview_columns. stat_missing (seg_stats seg) k \<longrightarrow> col r = 0))"
    using overview_row_default by blast
next
  show "rows_of (parse_maps_to_df maps_json p) = map (map_row_of p) maps_json"
    by (simp add: parse_maps_to_df_def rows_of_DataFrame)
next
  show "\<forall>(k, col)\<in>set map_columns. stat_missing (me_stats me) k \<longrightarrow> col (map_row_of p me) = 0"
    by (rule map_row_default)
next
  show "parse_operators_to_df ops_json p =
       (if list_ex (\<lambda>e. op_name_of e = Inl AttributeError) ops_json then Inl AttributeError
        else Inr (DataFrame (concat (map (\<lambda>e. case op_name_of e of
                                        Inr n \<Rightarrow> (if op_kept n then [op_row_of p n e] else [])
                                      | Inl x \<Rightarrow> []) ops_json))))"
    by (rule parse_operators_to_df_eq)
next
  show "\<forall>(k, col)\<in>set op_columns. stat_missing (oe_stats oe) k \<longrightarrow> col (op_row_of p n oe) = 0"
    by (rule op_row_default)
qed

theorem extractors_default_zero_witness:
  "find_overview (segments overview_A) = Some segment_A
   \<and> stat_missing (seg_stats segment_A) ''matchesLost''
   \<and> (\<exists>r. parse_overview_to_df overview_A ''A'' = Rows [r] \<and> ov_matchesLost r = 0 \<and> ov_matchesPlayed r = 50)
   \<and> stat_missing (me_stats map_entry_bank) ''matchesWon''
   \<and> map m_matchesWon (rows_of (parse_maps_to_df [map_entry_bank] ''A'')) = [0]
   \<and> stat_missing (oe_stats (op_entry_ash 40 20)) ''kills''
   \<and> op_name_of (op_entry_ash 40 20) = Inr ''Ash''
   \<and> parse_operators_to_df [op_entry_ash 40 20] ''A'' = Inr (Rows [op_row_of ''A'' ''Ash'' (op_entry_ash 40 20)])
   \<and> o_kills (op_row_of ''A'' ''Ash'' (op_entry_ash 40 20)) = 0
   \<and> parse_operators_to_df [op_entry_ash 40 20, op_entry_null_name] ''A'' = Inl AttributeError"
proof -
  have f: "find_overview (segments overview_A) = Some segment_A"
    by (simp add: overview_A_def segment_A_def)
  have m1: "stat_missing (seg_stats segment_A) ''matchesLost''"
    by (simp add: segment_A_def stats_A_def stat_missing_def)
  have m2: "stat_missing (me_stats map_entry_bank) ''matchesWon''"
    by (simp add: map_entry_bank_def stat_missing_def)
  have m3: "stat_missing (oe_stats (op_entry_ash 40 20)) ''kills''"
    by (simp add: op_entry_ash_def stat_missing_def)
  have n: "op_name_of (op_entry_ash 40 20) = Inr ''Ash''"
    by (simp add: op_name_of_def op_entry_ash_def strip_def is_space_def)
  have nn: "op_name_of op_entry_null_name = Inl AttributeError"
    by (simp add: op_name_of_def op_entry_null_name_def)
  have k: "op_kept ''Ash''" by code_simp
  have p: "get_stat stats_A ''matchesPlayed'' = 50"
    by (simp add: get_stat_def stats_A_def stat_of_def entry_truthy_def)
  note t = extractors_default_zero [of overview_A segment_A "''A''" "[map_entry_bank]"
      map_entry_bank "[op_entry_ash 40 20]" "op_entry_ash 40 20" "''Ash''"]
  note u = extractors_default_zero [of overview_A segment_A "''A''" "[map_entry_bank]"
      map_entry_bank "[op_entry_ash 40 20, op_entry_null_name]" "op_entry_ash 40 20" "''Ash''"]
  from t f obtain r where r: "parse_overview_to_df overview_A ''A'' = Rows [r]"
    and c: "\<forall>(k, col)\<in>set overview_columns. stat_missing (seg_stats segment_A) k \<longrightarrow> col r = 0"
    by blast
  from c m1 have l: "ov_matchesLost r = 0" by (simp add: overview_columns_def)
  from r f p have q: "ov_matchesPlayed r = 50"
    by (auto simp: parse_overview_to_df_def segment_A_def Let_def)
  from t m2 have a: "map m_matchesWon (rows_of (parse_maps_to_df [map_entry_bank] ''A'')) = [0]"
    by (simp add: map_columns_def)
  from t n k have b: "parse_operators_to_df [op_entry_ash 40 20] ''A''
      = Inr (Rows [op_row_of ''A'' ''Ash'' (op_entry_ash 40 20)])"
    by (simp add: DataFrame_def)
  from t m3 have b': "o_kills (op_row_of ''A'' ''Ash'' (op_entry_ash 40 20)) = 0"
    by (simp add: op_columns_def)
  from u n nn have e: "parse_operators_to_df [op_entry_ash 40 20, op_entry_null_name] ''A'' = Inl AttributeError"
    by simp
  from f m1 r l q m2 a m3 n b b' e show ?thesis by blast
qed

section \<open>Grouping preserves the totals\<close>






section \<open>Best and worst maps\<close>

text \<open>
  Claim C6. On a map aggregate and a threshold, the best/worst-maps function returns two
  tables without fault; each holds exactly the rows with matchesPlayed at least the
  threshold, the first with winPct non-increasing and the second with winPct
  non-decreasing; when no row meets the threshold both tables are the empty frame.
\<close>

theorem best_worst_maps_filtered_and_ordered:
  "\<exists>b w. compute_best_worst_maps (Rows rows) t = Inr (b, w)
     \<and> mset (rows_of b) = mset (filter (\<lambda>r. ma_matchesPlayed r \<ge> t) rows)
     \<and> mset (rows_of w) = mset (filter (\<lambda>r. ma_matchesPlayed r \<ge> t) rows)
     \<and> sorted_wrt (\<lambda>x y. x \<ge> y) (map ma_winPct (rows_of b))
     \<and> sorted (map ma_winPct (rows_of w))
     \<and> (filter (\<lambda>r. ma_matchesPlayed r \<ge> t) rows = [] \<longrightarrow> b = EmptyFrame \<and> w = EmptyFrame)"
  by (simp add: compute_best_worst_maps_def Let_def mset_sort_values sorted_sort_values_asc
      sorted_sort_values_desc del: mset_filter)

theorem best_worst_maps_filtered_and_ordered_witness:
  "compute_best_worst_maps (Rows [agg_bank, agg_border, agg_oregon]) 10
     = Inr (Rows [agg_bank, agg_border], Rows [agg_border, agg_bank])
   \<and> filter (\<lambda>r. ma_matchesPlayed r \<ge> 1000) [agg_bank, agg_border, agg_oregon] = []
   \<and> compute_best_worst_maps (Rows [agg_bank, agg_border, agg_oregon]) 1000 = Inr (EmptyFrame, EmptyFrame)"
proof -
  have e: "filter (\<lambda>r. ma_matchesPlayed r \<ge> 1000) [agg_bank, agg_border, agg_oregon] = []"
    by (simp add: agg_bank_def agg_border_def agg_oregon_def)
  from best_worst_maps_filtered_and_ordered [of "[agg_bank, agg_border, agg_oregon]" 1000] e
  have z: "compute_best_worst_maps (Rows [agg_bank, agg_border, agg_oregon]) 1000 = Inr (EmptyFrame, EmptyFrame)"
    by auto
  have f: "compute_best_worst_maps (Rows [agg_bank, agg_border, agg_oregon]) 10
     = Inr (Rows [agg_bank, agg_border], Rows [agg_border, agg_bank])"
    by (simp add: compute_best_worst_maps_def sort_values_def agg_bank_def agg_border_def agg_oregon_def)
  from f e z show ?thesis by blast
qed


text \<open>
  Claim C10. The two tables the best/worst-maps function returns hold the same multiset of
  rows: each is a reordering of the other.
\<close>

theorem best_worst_maps_permutation:
  "\<exists>b w. compute_best_worst_maps (Rows rows) t = Inr (b, w) \<and> mset (rows_of b) = mset (rows_of w)"
  by (simp add: compute_best_worst_maps_def Let_def mset_sort_values del: mset_filter)

section \<open>Ratios of the aggregates\<close>

text \<open>
  Claim C5. In every row of the map aggregate, of the operator aggregate by team, of the
  operator aggregate by player and of the team overview, the four counts are the sums over
  the rows of the group (over all rows, for the team overview), winPct is the summed
  matchesWon divided by the summed matchesPlayed times 100 when the latter is positive and
  0 otherwise, and kdRatio is the summed kills divided by the summed deaths when the latter
  is positive and 0 otherwise. The stored per-participant winPct and kdRatio take no part:
  replacing them by anything leaves the four aggregates unchanged.
\<close>

theorem ratios_recomputed_from_sums:
  "(\<forall>r\<in>set (rows_of (maps_df_agg_of maps_df)).
      ma_matchesPlayed r = sum_list (map m_matchesPlayed (group_of m_mapName (rows_of maps_df) (ma_mapName r)))
    \<and> ma_matchesWon r = sum_list (map m_matchesWon (group_of m_mapName (rows_of maps_df) (ma_mapName r)))
    \<and> ma_kills r = sum_list (map m_kills (group_of m_mapName (rows_of maps_df) (ma_mapName r)))
    \<and> ma_deaths r = sum_list (map m_deaths (group_of m_mapName (rows_of maps_df) (ma_mapName r)))
    \<and> ma_winPct r = (if ma_matchesPlayed r > 0 then ma_matchesWon r / ma_matchesPlayed r * 100 else 0)
    \<and> ma_kdRatio r = (if ma_deaths r > 0 then ma_kills r / ma_deaths r else 0))
 \<and> (\<forall>r\<in>set (rows_of (ops_df_agg_team_of ops_df)).
      ot_matchesPlayed r = sum_list (map o_matchesPlayed
         (group_of key_operator_side (rows_of ops_df) (ot_operatorName r, ot_side r)))
    \<and> ot_matchesWon r = sum_list (map o_matchesWon
         (group_of key_operator_side (rows_of ops_df) (ot_operatorName r, ot_side r)))
    \<and> ot_kills r = sum_list (map o_kills
         (group_of key_operator_side (rows_of ops_df) (ot_operatorName r, ot_side r)))
    \<and> ot_deaths r = sum_list (map o_deaths
         (group_of key_operator_side (rows_of ops_df) (ot_operatorName r, ot_side r)))
    \<and> ot_winPct r = (if ot_matchesPlayed r > 0 then ot_matchesWon r / ot_matchesPlayed r * 100 else 0)
    \<and> ot_kdRatio r = (if ot_deaths r > 0 then ot_kills r / ot_deaths r else 0))
 \<and> (\<forall>r\<in>set (rows_of (ops_df_agg_player_of ops_df)).
      op_matchesPlayed r = sum_list (map o_matchesPlayed
         (group_of key_player_operator_side (rows_of ops_df)
            (op_player r, op_operatorName r, op_side r)))
    \<and> op_matchesWon r = sum_list (map o_matchesWon
         (group_of key_player_operator_side (rows_of ops_df)
            (op_player r, op_operatorName r, op_side r)))
    \<and> op_kills r = sum_list (map o_kills
         (group_of key_player_operator_side (rows_of ops_df)
            (op_player r, op_operatorName r, op_side r)))
    \<and> op_deaths r = sum_list (map o_deaths
         (group_of key_player_operator_side (rows_of ops_df)
            (op_player r, op_operatorName r, op_side r)))
    \<and> op_winPct r = (if op_matchesPlayed r > 0 then op_matchesWon r / op_matchesPlayed r * 100 else 0)
    \<and> op_kdRatio r = (if op_deaths r > 0 then op_kills r / op_deaths r else 0))
 \<and> (\<forall>r\<in>set (rows_of (df_overview_equipe_of overview_df)).
      eq_matchesPlayed r = sum_list (map ov_matchesPlayed (rows_of overview_df))
    \<and> eq_matchesWon r = sum_list (map ov_matchesWon (rows_of overview_df))
    \<and> eq_kills r = sum_list (map ov_kills (rows_of overview_df))
    \<and> eq_deaths r = sum_list (map ov_deaths (rows_of overview_df))
    \<and> eq_winPct r = (if eq_matchesPlayed r > 0 then eq_matchesWon r / eq_matchesPlayed r * 100 else 0)
    \<and> eq_kdRatio r = (if eq_deaths r > 0 then eq_kills r / eq_deaths r else 0))
 \<and> maps_df_agg_of (Rows (map (\<lambda>r. r\<lparr> m_winPct := w1 r, m_kdRatio := d1 r \<rparr>) map_rows))
      = maps_df_agg_of (Rows map_rows)
 \<and> ops_df_agg_team_of (Rows (map (\<lambda>r. r\<lparr> o_winPct := w2 r, o_kdRatio := d2 r \<rparr>) op_rows))
      = ops_df_agg_team_of (Rows op_rows)
 \<and> ops_df_agg_player_of (Rows (map (\<lambda>r. r\<lparr> o_winPct := w2 r, o_kdRatio := d2 r \<rparr>) op_rows))
      = ops_df_agg_player_of (Rows op_rows)
 \<and> df_overview_equipe_of (Rows (map (\<lambda>r. r\<lparr> ov_winPct := w3 r, ov_kdRatio := d3 r \<rparr>) ov_rows))
      = df_overview_equipe_of (Rows ov_rows)"
proof (intro conjI ballI)
  fix r assume "r \<in> set (rows_of (maps_df_agg_of maps_df))"
  then obtain k where r: "r = map_agg_row_of (rows_of maps_df) k" using maps_agg_rows by blast
  show "ma_matchesPlayed r = sum_list (map m_matchesPlayed (group_of m_mapName (rows_of maps_df) (ma_mapName r)))"
    "ma_matchesWon r = sum_list (map m_matchesWon (group_of m_mapName (rows_of maps_df) (ma_mapName r)))"
    "ma_kills r = sum_list (map m_kills (group_of m_mapName (rows_of maps_df) (ma_mapName r)))"
    "ma_deaths r = sum_list (map m_deaths (group_of m_mapName (rows_of maps_df) (ma_mapName r)))"
    "ma_winPct r = (if ma_matchesPlayed r > 0 then ma_matchesWon r / ma_matchesPlayed r * 100 else 0)"
    "ma_kdRatio r = (if ma_deaths r > 0 then ma_kills r / ma_deaths r else 0)"
    unfolding r by (simp_all add: map_agg_row_of_def Let_def win_pct_def kd_ratio_def)
next
  fix r assume "r \<in> set (rows_of (ops_df_agg_team_of ops_df))"
  then obtain k where r: "r = op_team_row_of (rows_of ops_df) k" using ops_team_rows by blast
  show "ot_matchesPlayed r = sum_list (map o_matchesPlayed
         (group_of key_operator_side (rows_of ops_df) (ot_operatorName r, ot_side r)))"
    "ot_matchesWon r = sum_list (map o_matchesWon
         (group_of key_operator_side (rows_of ops_df) (ot_operatorName r, ot_side r)))"
    "ot_kills r = sum_list (map o_kills
         (group_of key_operator_side (rows_of ops_df) (ot_operatorName r, ot_side r)))"
    "ot_deaths r = sum_list (map o_deaths
         (group_of key_operator_side (rows_of ops_df) (ot_operatorName r, ot_side r)))"
    "ot_winPct r = (if ot_matchesPlayed r > 0 then ot_matchesWon r / ot_matchesPlayed r * 100 else 0)"
    "ot_kdRatio r = (if ot_deaths r > 0 then ot_kills r / ot_deaths r else 0)"
    unfolding r by (simp_all add: op_team_row_of_def Let_def win_pct_def kd_ratio_def)
next
  fix r assume "r \<in> set (rows_of (ops_df_agg_player_of ops_df))"
  then obtain k where r: "r = op_player_row_of (rows_of ops_df) k" using ops_player_rows by blast
  show "op_matchesPlayed r = sum_list (map o_matchesPlayed
         (group_of key_player_operator_side (rows_of ops_df)
            (op_player r, op_operatorName r, op_side r)))"
    "op_matchesWon r = sum_list (map o_matchesWon
         (group_of key_player_operator_side (rows_of ops_df)
            (op_player r, op_operatorName r, op_side r)))"
    "op_kills r = sum_list (map o_kills
         (group_of key_player_operator_side (rows_of ops_df)
            (op_player r, op_operatorName r, op_side r)))"
    "op_deaths r = sum_list (map o_deaths
         (group_of key_player_operator_side (rows_of ops_df)
            (op_player r, op_operatorName r, op_side r)))"
    "op_winPct r = (if op_matchesPlayed r > 0 then op_matchesWon r / op_matchesPlayed r * 100 else 0)"
    "op_kdRatio r = (if op_deaths r > 0 then op_kills r / op_deaths r else 0)"
    unfolding r by (simp_all add: op_player_row_of_def Let_def win_pct_def kd_ratio_def)
next
  fix r assume a: "r \<in> set (rows_of (df_overview_equipe_of overview_df))"
  show "eq_matchesPlayed r = sum_list (map ov_matchesPlayed (rows_of overview_df))"
    "eq_matchesWon r = sum_list (map ov_matchesWon (rows_of overview_df))"
    "eq_kills r = sum_list (map ov_kills (rows_of overview_df))"
    "eq_deaths r = sum_list (map ov_deaths (rows_of overview_df))"
    "eq_winPct r = (if eq_matchesPlayed r > 0 then eq_matchesWon r / eq_matchesPlayed r * 100 else 0)"
    "eq_kdRatio r = (if eq_deaths r > 0 then eq_kills r / eq_deaths r else 0)"
    using team_overview_rows [OF a] by (simp_all add: win_pct_def kd_ratio_def)
next
  show "maps_df_agg_of (Rows (map (\<lambda>r. r\<lparr> m_winPct := w1 r, m_kdRatio := d1 r \<rparr>) map_rows))
      = maps_df_agg_of (Rows map_rows)"
    by (simp add: maps_df_agg_of_def group_keys_def map_agg_row_of_def group_of_def comp_def
        filter_map Let_def map_filter_map)
next
  show "ops_df_agg_team_of (Rows (map (\<lambda>r. r\<lparr> o_winPct := w2 r, o_kdRatio := d2 r \<rparr>) op_rows))
      = ops_df_agg_team_of (Rows op_rows)"
    by (simp add: ops_df_agg_team_of_def group_keys_def op_team_row_of_def group_of_def comp_def
        filter_map Let_def map_filter_map key_operator_side_update)
next
  show "ops_df_agg_player_of (Rows (map (\<lambda>r. r\<lparr> o_winPct := w2 r, o_kdRatio := d2 r \<rparr>) op_rows))
      = ops_df_agg_player_of (Rows op_rows)"
    by (simp add: ops_df_agg_player_of_def group_keys_def op_player_row_of_def group_of_def comp_def
        filter_map Let_def map_filter_map key_player_operator_side_update)
next
  show "df_overview_equipe_of (Rows (map (\<lambda>r. r\<lparr> ov_winPct := w3 r, ov_kdRatio := d3 r \<rparr>) ov_rows))
      = df_overview_equipe_of (Rows ov_rows)"
    by (simp add: df_overview_equipe_of_def comp_def Let_def)
qed


theorem ratios_recomputed_from_sums_witness:
  "agg_bank \<in> set (rows_of (maps_df_agg_of maps_df_AB))
 \<and> sum_list (map m_matchesPlayed (group_of m_mapName (rows_of maps_df_AB) ''Bank'')) = 100
 \<and> sum_list (map m_matchesWon (group_of m_mapName (rows_of maps_df_AB) ''Bank'')) = 65
 \<and> ma_matchesPlayed agg_bank = 100 \<and> ma_matchesWon agg_bank = 65 \<and> ma_winPct agg_bank = 65
 \<and> agg_oregon \<in> set (rows_of (maps_df_agg_of maps_df_AB))
 \<and> sum_list (map m_deaths (group_of m_mapName (rows_of maps_df_AB) ''Oregon'')) = 0
 \<and> ma_deaths agg_oregon = 0 \<and> ma_kdRatio agg_oregon = 0"
proof -
  note t = ratios_recomputed_from_sums [where maps_df = maps_df_AB and ops_df = ops_df_AB
      and overview_df = EmptyFrame and map_rows = "[]" and op_rows = "[]" and ov_rows = "[]"
      and ?w1.0 = "\<lambda>r. 0" and ?d1.0 = "\<lambda>r. 0" and ?w2.0 = "\<lambda>r. 0" and ?d2.0 = "\<lambda>r. 0"
      and ?w3.0 = "\<lambda>r. 0" and ?d3.0 = "\<lambda>r. 0", THEN conjunct1]
  have m: "agg_bank \<in> set (rows_of (maps_df_agg_of maps_df_AB))"
    "agg_oregon \<in> set (rows_of (maps_df_agg_of maps_df_AB))"
    by (simp_all add: rows_maps_df_agg_AB)
  have n: "ma_mapName agg_bank = ''Bank''" "ma_mapName agg_oregon = ''Oregon''"
    by (simp_all add: agg_bank_def agg_oregon_def)
  have g: "sum_list (map m_matchesPlayed (group_of m_mapName (rows_of maps_df_AB) ''Bank'')) = 100"
    "sum_list (map m_matchesWon (group_of m_mapName (rows_of maps_df_AB) ''Bank'')) = 65"
    "sum_list (map m_deaths (group_of m_mapName (rows_of maps_df_AB) ''Oregon'')) = 0"
    by (simp_all add: maps_df_AB_def group_of_def)
  from t m(1) n(1) g have b: "ma_matchesPlayed agg_bank = 100 \<and> ma_matchesWon agg_bank = 65
      \<and> ma_winPct agg_bank = (if ma_matchesPlayed agg_bank > 0
           then ma_matchesWon agg_bank / ma_matchesPlayed agg_bank * 100 else 0)"
    by metis
  then have b': "ma_winPct agg_bank = 65" by simp
  from t m(2) n(2) g have c: "ma_deaths agg_oregon = 0
      \<and> ma_kdRatio agg_oregon = (if ma_deaths agg_oregon > 0
           then ma_kills agg_oregon / ma_deaths agg_oregon else 0)"
    by metis
  then have c': "ma_kdRatio agg_oregon = 0" by simp
  from m g b b' c c' show ?thesis by blast
qed


text \<open>
  Claim C7. In the two operator aggregates and in the kills-per-match ranking,
  killsPerMatch is kills divided by matchesPlayed, and blank (\<open>None\<close>, not 0) in every row
  with matchesPlayed = 0; kdRatio in the same rows is 0 when deaths is 0.
\<close>

theorem kills_per_match_blank_when_unplayed:
  "(\<forall>r\<in>set (rows_of (ops_df_agg_team_of ops_df)).
      ot_killsPerMatch r = (if ot_matchesPlayed r = 0 then None else Some (ot_kills r / ot_matchesPlayed r))
    \<and> ot_kdRatio r = (if ot_deaths r > 0 then ot_kills r / ot_deaths r else 0))
 \<and> (\<forall>r\<in>set (rows_of (ops_df_agg_player_of ops_df)).
      op_killsPerMatch r = (if op_matchesPlayed r = 0 then None else Some (op_kills r / op_matchesPlayed r))
    \<and> op_kdRatio r = (if op_deaths r > 0 then op_kills r / op_deaths r else 0))
 \<and> (\<exists>mais_jogados maior_win maior_kpm.
      compute_most_played_operators (Rows rows) min_operator_matches top_n
        = Inr (mais_jogados, maior_win, maior_kpm)
    \<and> (\<forall>r\<in>set (rows_of maior_kpm).
          op_killsPerMatch r = (if op_matchesPlayed r = 0 then None else Some (op_kills r / op_matchesPlayed r))))"
proof (intro conjI ballI)
  fix r assume "r \<in> set (rows_of (ops_df_agg_team_of ops_df))"
  then obtain k where r: "r = op_team_row_of (rows_of ops_df) k" using ops_team_rows by blast
  show "ot_killsPerMatch r = (if ot_matchesPlayed r = 0 then None else Some (ot_kills r / ot_matchesPlayed r))"
    "ot_kdRatio r = (if ot_deaths r > 0 then ot_kills r / ot_deaths r else 0)"
    unfolding r by (simp_all add: op_team_row_of_def Let_def kills_per_match_def kd_ratio_def)
next
  fix r assume "r \<in> set (rows_of (ops_df_agg_player_of ops_df))"
  then obtain k where r: "r = op_player_row_of (rows_of ops_df) k" using ops_player_rows by blast
  show "op_killsPerMatch r = (if op_matchesPlayed r = 0 then None else Some (op_kills r / op_matchesPlayed r))"
    "op_kdRatio r = (if op_deaths r > 0 then op_kills r / op_deaths r else 0)"
    unfolding r by (simp_all add: op_player_row_of_def Let_def kills_per_match_def kd_ratio_def)
next
  let ?df = "filter (\<lambda>r. op_matchesPlayed r \<ge> min_operator_matches) rows"
  let ?kpm = "map (\<lambda>r. r\<lparr> op_killsPerMatch := kills_per_match (op_kills r) (op_matchesPlayed r) \<rparr>) ?df"
  show "\<exists>mais_jogados maior_win maior_kpm.
      compute_most_played_operators (Rows rows) min_operator_matches top_n
        = Inr (mais_jogados, maior_win, maior_kpm)
    \<and> (\<forall>r\<in>set (rows_of maior_kpm).
          op_killsPerMatch r = (if op_matchesPlayed r = 0 then None else Some (op_kills r / op_matchesPlayed r)))"
  proof (cases "?df = []")
    case True
    then show ?thesis by (simp add: compute_most_played_operators_def)
  next
    case False
    have "\<forall>r\<in>set (head top_n (sort_values_na op_killsPerMatch False ?kpm)).
          op_killsPerMatch r = (if op_matchesPlayed r = 0 then None else Some (op_kills r / op_matchesPlayed r))"
    proof
      fix r assume "r \<in> set (head top_n (sort_values_na op_killsPerMatch False ?kpm))"
      then have "r \<in> set ?kpm" using set_head set_sort_values_na by fastforce
      then show "op_killsPerMatch r = (if op_matchesPlayed r = 0 then None else Some (op_kills r / op_matchesPlayed r))"
        by (auto simp: kills_per_match_def)
    qed
    with False show ?thesis by (simp add: compute_most_played_operators_def Let_def)
  qed
qed


theorem kills_per_match_blank_when_unplayed_witness:
  "map ot_matchesPlayed (rows_of (ops_df_agg_team_of ops_df_unplayed)) = [0]
 \<and> map ot_deaths (rows_of (ops_df_agg_team_of ops_df_unplayed)) = [0]
 \<and> map ot_killsPerMatch (rows_of (ops_df_agg_team_of ops_df_unplayed)) = [None]
 \<and> map ot_kdRatio (rows_of (ops_df_agg_team_of ops_df_unplayed)) = [0]
 \<and> map ot_matchesPlayed (rows_of (ops_df_agg_team_of ops_df_AB)) = [100]
 \<and> map ot_killsPerMatch (rows_of (ops_df_agg_team_of ops_df_AB)) = [Some 0]
 \<and> (case compute_most_played_operators (ops_df_agg_player_of ops_df_unplayed) 0 10 of
       Inl e \<Rightarrow> [] | Inr (a, b, c) \<Rightarrow> map op_killsPerMatch (rows_of c)) = [None]"
proof -
  note t = kills_per_match_blank_when_unplayed [where ops_df = ops_df_unplayed and rows = "[]"
      and min_operator_matches = 0 and top_n = 10, THEN conjunct1]
  note u = kills_per_match_blank_when_unplayed [where ops_df = ops_df_AB and rows = "[]"
      and min_operator_matches = 0 and top_n = 10, THEN conjunct1]
  obtain r where r: "rows_of (ops_df_agg_team_of ops_df_unplayed) = [r]"
    and rp: "ot_matchesPlayed r = 0" and rd: "ot_deaths r = 0"
    by (simp add: rows_ops_team_unplayed team_row_unplayed_def)
  from t r rp rd have "ot_killsPerMatch r = None \<and> ot_kdRatio r = 0" by simp
  with r rp rd have a: "map ot_matchesPlayed (rows_of (ops_df_agg_team_of ops_df_unplayed)) = [0]
     \<and> map ot_deaths (rows_of (ops_df_agg_team_of ops_df_unplayed)) = [0]
     \<and> map ot_killsPerMatch (rows_of (ops_df_agg_team_of ops_df_unplayed)) = [None]
     \<and> map ot_kdRatio (rows_of (ops_df_agg_team_of ops_df_unplayed)) = [0]" by simp
  obtain q where q: "rows_of (ops_df_agg_team_of ops_df_AB) = [q]"
    and qp: "ot_matchesPlayed q = 100" and qk: "ot_kills q = 0"
    by (simp add: rows_ops_team_AB team_row_AB_def)
  from u q qp qk have "ot_killsPerMatch q = Some 0" by simp
  with q qp have b: "map ot_matchesPlayed (rows_of (ops_df_agg_team_of ops_df_AB)) = [100]
     \<and> map ot_killsPerMatch (rows_of (ops_df_agg_team_of ops_df_AB)) = [Some 0]" by simp
  have c: "(case compute_most_played_operators (ops_df_agg_player_of ops_df_unplayed) 0 10 of
       Inl e \<Rightarrow> [] | Inr (a, b, c) \<Rightarrow> map op_killsPerMatch (rows_of c)) = [None]"
    by code_simp
  from a b c show ?thesis by blast
qed


section \<open>Matches lost\<close>

text \<open>
  Claim C1 says that matchesLost of every overview row and of the team overview is
  matchesPlayed minus matchesWon and is never read from the input. The overview extractor
  reads it from the input: for participant \<open>A\<close> (50 played, 30 won, no stored matchesLost)
  the row and the team overview hold 0, not 20.
\<close>

theorem matches_lost_overview_counterexample:
  "map ov_matchesPlayed (rows_of (parse_overview_to_df overview_A ''A'')) = [50]
 \<and> map ov_matchesWon (rows_of (parse_overview_to_df overview_A ''A'')) = [30]
 \<and> map ov_matchesLost (rows_of (parse_overview_to_df overview_A ''A'')) = [0]
 \<and> map eq_matchesPlayed (rows_of (df_overview_equipe_of (parse_overview_to_df overview_A ''A''))) = [50]
 \<and> map eq_matchesWon (rows_of (df_overview_equipe_of (parse_overview_to_df overview_A ''A''))) = [30]
 \<and> map eq_matchesLost (rows_of (df_overview_equipe_of (parse_overview_to_df overview_A ''A''))) = [0]"
  by (simp add: parse_overview_to_df_def overview_A_def segment_A_def stats_A_def get_stat_def
      stat_of_def entry_truthy_def df_overview_equipe_of_def Let_def)


text \<open>
  Claim C1, amended. matchesLost of a participant's overview row is the stored matchesLost
  statistic of the overview segment (0 when it is missing), and matchesLost of the team
  overview is the sum of the rows' matchesLost; it is matchesPlayed minus matchesWon in the
  map aggregate, the two operator aggregates and the side aggregate.
\<close>

theorem matches_lost_stored_or_derived:
  "(find_overview (segments ov) = Some seg \<longrightarrow>
      map ov_matchesLost (rows_of (parse_overview_to_df ov p)) = [get_stat (seg_stats seg) ''matchesLost''])
 \<and> (\<forall>t\<in>set (rows_of (df_overview_equipe_of overview_df)).
      eq_matchesLost t = sum_list (map ov_matchesLost (rows_of overview_df)))
 \<and> (\<forall>r\<in>set (rows_of (maps_df_agg_of maps_df)). ma_matchesLost r = ma_matchesPlayed r - ma_matchesWon r)
 \<and> (\<forall>r\<in>set (rows_of (ops_df_agg_team_of ops_df)). ot_matchesLost r = ot_matchesPlayed r - ot_matchesWon r)
 \<and> (\<forall>r\<in>set (rows_of (ops_df_agg_player_of ops_df)). op_matchesLost r = op_matchesPlayed r - op_matchesWon r)
 \<and> (\<exists>sides. sides_df_agg_of team = Inr sides
      \<and> (\<forall>s\<in>set (rows_of sides). s_matchesLost s = s_matchesPlayed s - s_matchesWon s))"
proof (intro conjI ballI impI)
  assume "find_overview (segments ov) = Some seg"
  then show "map ov_matchesLost (rows_of (parse_overview_to_df ov p)) = [get_stat (seg_stats seg) ''matchesLost'']"
    by (simp add: parse_overview_to_df_def Let_def)
next
  fix t assume "t \<in> set (rows_of (df_overview_equipe_of overview_df))"
  then show "eq_matchesLost t = sum_list (map ov_matchesLost (rows_of overview_df))"
    using team_overview_rows by blast
next
  fix r assume "r \<in> set (rows_of (maps_df_agg_of maps_df))"
  then show "ma_matchesLost r = ma_matchesPlayed r - ma_matchesWon r"
    using maps_agg_rows map_agg_row_fields by metis
next
  fix r assume "r \<in> set (rows_of (ops_df_agg_team_of ops_df))"
  then show "ot_matchesLost r = ot_matchesPlayed r - ot_matchesWon r"
    using ops_team_rows op_team_row_fields by metis
next
  fix r assume "r \<in> set (rows_of (ops_df_agg_player_of ops_df))"
  then show "op_matchesLost r = op_matchesPlayed r - op_matchesWon r"
    using ops_player_rows op_player_row_fields by metis
next
  obtain sides where s: "sides_df_agg_of team = Inr sides"
    and k: "\<forall>s\<in>set (rows_of sides). \<exists>k. s = side_row_of (rows_of team) k"
    using sides_df_agg_of_Inr by blast
  from k have "\<forall>s\<in>set (rows_of sides). s_matchesLost s = s_matchesPlayed s - s_matchesWon s"
    by (auto simp: side_row_of_def Let_def)
  with s show "\<exists>sides. sides_df_agg_of team = Inr sides
      \<and> (\<forall>s\<in>set (rows_of sides). s_matchesLost s = s_matchesPlayed s - s_matchesWon s)"
    by blast
qed


theorem matches_lost_stored_or_derived_witness:
  "find_overview (segments overview_C)
     = Some \<lparr> seg_type = Present ''overview'', seg_stats = stats_A(''matchesLost'' := stat_of 7) \<rparr>
 \<and> get_stat (stats_A(''matchesLost'' := stat_of 7)) ''matchesLost'' = 7
 \<and> map ov_matchesLost (rows_of (parse_overview_to_df overview_C ''C'')) = [7]
 \<and> map ov_matchesPlayed (rows_of (parse_overview_to_df overview_C ''C'')) = [50]
 \<and> map ov_matchesWon (rows_of (parse_overview_to_df overview_C ''C'')) = [30]
 \<and> map eq_matchesLost (rows_of (df_overview_equipe_of (parse_overview_to_df overview_C ''C''))) = [7]
 \<and> map ma_matchesLost (rows_of (maps_df_agg_of maps_df_AB)) = [35, 15, 1]"
proof -
  note t = matches_lost_stored_or_derived [where ov = overview_C and p = "''C''"
      and seg = "\<lparr> seg_type = Present ''overview'', seg_stats = stats_A(''matchesLost'' := stat_of 7) \<rparr>"
      and overview_df = "parse_overview_to_df overview_C ''C''" and maps_df = maps_df_AB
      and ops_df = ops_df_AB and team = EmptyFrame]
  have f: "find_overview (segments overview_C)
     = Some \<lparr> seg_type = Present ''overview'', seg_stats = stats_A(''matchesLost'' := stat_of 7) \<rparr>"
    by (simp add: overview_C_def)
  have g: "get_stat (stats_A(''matchesLost'' := stat_of 7)) ''matchesLost'' = 7"
    by (simp add: get_stat_def stat_of_def entry_truthy_def)
  from t f g have l: "map ov_matchesLost (rows_of (parse_overview_to_df overview_C ''C'')) = [7]"
    by simp
  have pw: "map ov_matchesPlayed (rows_of (parse_overview_to_df overview_C ''C'')) = [50]"
    "map ov_matchesWon (rows_of (parse_overview_to_df overview_C ''C'')) = [30]"
    by (simp_all add: parse_overview_to_df_def overview_C_def stats_A_def get_stat_def
        stat_of_def entry_truthy_def Let_def)
  obtain e where e: "rows_of (df_overview_equipe_of (parse_overview_to_df overview_C ''C'')) = [e]"
    by (simp add: df_overview_equipe_of_def parse_overview_to_df_def overview_C_def Let_def)
  from t e l have "eq_matchesLost e = 7" by simp
  with e have m: "map eq_matchesLost (rows_of (df_overview_equipe_of (parse_overview_to_df overview_C ''C''))) = [7]"
    by simp
  have a: "map ma_matchesLost (rows_of (maps_df_agg_of maps_df_AB)) = [35, 15, 1]"
    by (simp add: rows_maps_df_agg_AB agg_bank_def agg_border_def agg_oregon_def)
  from f g l pw m a show ?thesis by blast
qed


section \<open>Range of the win percentage\<close>

text \<open>
  Claim C4 says that winPct lies in [0, 100] in every aggregate row with matchesPlayed > 0.
  Nothing bounds the stored counts: a map entry with matchesWon = 3 and no matchesPlayed,
  aggregated with an entry of the same map with one match played, gives winPct = 300.
\<close>

theorem win_pct_unbounded_counterexample:
  "map ma_matchesPlayed (rows_of (maps_df_agg_of maps_df_X)) = [1]
 \<and> map ma_matchesWon (rows_of (maps_df_agg_of maps_df_X)) = [3]
 \<and> map ma_winPct (rows_of (maps_df_agg_of maps_df_X)) = [300]"
  by code_simp


text \<open>
  Claim C4, amended. In every row of the map aggregate, the two operator aggregates, the
  team overview and the side aggregate, winPct is 0 when matchesPlayed is 0; and winPct of
  a row with matchesPlayed > 0 lies in [0, 100] when every input row that contributes to
  that row has 0 \<le> matchesWon \<le> matchesPlayed. The contributing rows are the rows of the
  group for the map and operator aggregates, all the overview rows for the team overview,
  and the operator rows of that side for the side aggregate; the other rows of the input
  table are not constrained.
\<close>

theorem win_pct_in_range:
  "(\<forall>a\<in>set (rows_of (maps_df_agg_of maps_df)).
      (ma_matchesPlayed a = 0 \<longrightarrow> ma_winPct a = 0)
    \<and> ((\<forall>r\<in>set (group_of m_mapName (rows_of maps_df) (ma_mapName a)).
            0 \<le> m_matchesWon r \<and> m_matchesWon r \<le> m_matchesPlayed r) \<longrightarrow>
         (0 < ma_matchesPlayed a \<longrightarrow> 0 \<le> ma_winPct a \<and> ma_winPct a \<le> 100)))
 \<and> (\<forall>a\<in>set (rows_of (ops_df_agg_team_of ops_df)).
      (ot_matchesPlayed a = 0 \<longrightarrow> ot_winPct a = 0)
    \<and> ((\<forall>r\<in>set (group_of key_operator_side (rows_of ops_df) (ot_operatorName a, ot_side a)).
            0 \<le> o_matchesWon r \<and> o_matchesWon r \<le> o_matchesPlayed r) \<longrightarrow>
         (0 < ot_matchesPlayed a \<longrightarrow> 0 \<le> ot_winPct a \<and> ot_winPct a \<le> 100)))
 \<and> (\<forall>a\<in>set (rows_of (ops_df_agg_player_of ops_df)).
      (op_matchesPlayed a = 0 \<longrightarrow> op_winPct a = 0)
    \<and> ((\<forall>r\<in>set (group_of key_player_operator_side (rows_of ops_df)
                     (op_player a, op_operatorName a, op_side a)).
            0 \<le> o_matchesWon r \<and> o_matchesWon r \<le> o_matchesPlayed r) \<longrightarrow>
         (0 < op_matchesPlayed a \<longrightarrow> 0 \<le> op_winPct a \<and> op_winPct a \<le> 100)))
 \<and> (\<forall>a\<in>set (rows_of (df_overview_equipe_of overview_df)).
      (eq_matchesPlayed a = 0 \<longrightarrow> eq_winPct a = 0)
    \<and> ((\<forall>r\<in>set (rows_of overview_df). 0 \<le> ov_matchesWon r \<and> ov_matchesWon r \<le> ov_matchesPlayed r) \<longrightarrow>
         (0 < eq_matchesPlayed a \<longrightarrow> 0 \<le> eq_winPct a \<and> eq_winPct a \<le> 100)))
 \<and> (\<exists>sides. sides_df_agg_of (ops_df_agg_team_of ops_df) = Inr sides
     \<and> (\<forall>s\<in>set (rows_of sides).
          (s_matchesPlayed s = 0 \<longrightarrow> s_winPctSide s = 0)
        \<and> ((\<forall>r\<in>set (rows_of ops_df). o_side r = Some (s_side s) \<longrightarrow>
                 0 \<le> o_matchesWon r \<and> o_matchesWon r \<le> o_matchesPlayed r) \<longrightarrow>
             (0 < s_matchesPlayed s \<longrightarrow> 0 \<le> s_winPctSide s \<and> s_winPctSide s \<le> 100))))"
proof (intro conjI ballI impI)
  fix a assume "a \<in> set (rows_of (maps_df_agg_of maps_df))" "ma_matchesPlayed a = 0"
  then show "ma_winPct a = 0"
    using maps_agg_rows map_agg_row_fields win_pct_zero by metis
next
  fix a assume "a \<in> set (rows_of (ops_df_agg_team_of ops_df))" "ot_matchesPlayed a = 0"
  then show "ot_winPct a = 0"
    using ops_team_rows op_team_row_fields win_pct_zero by metis
next
  fix a assume "a \<in> set (rows_of (ops_df_agg_player_of ops_df))" "op_matchesPlayed a = 0"
  then show "op_winPct a = 0"
    using ops_player_rows op_player_row_fields win_pct_zero by metis
next
  fix a assume "a \<in> set (rows_of (df_overview_equipe_of overview_df))" "eq_matchesPlayed a = 0"
  then show "eq_winPct a = 0"
    using team_overview_rows win_pct_zero by metis
next
  fix a
  assume a: "a \<in> set (rows_of (maps_df_agg_of maps_df))"
    and h: "\<forall>r\<in>set (group_of m_mapName (rows_of maps_df) (ma_mapName a)).
            0 \<le> m_matchesWon r \<and> m_matchesWon r \<le> m_matchesPlayed r"
    and p: "0 < ma_matchesPlayed a"
  from a obtain k where r: "a = map_agg_row_of (rows_of maps_df) k" using maps_agg_rows by blast
  from r have n: "ma_mapName a = k" by (simp add: map_agg_row_fields)
  from p r have p': "0 < sum_list (map m_matchesPlayed (group_of m_mapName (rows_of maps_df) k))"
    by (simp add: map_agg_row_fields)
  from h n have h': "\<forall>r\<in>set (group_of m_mapName (rows_of maps_df) k).
            0 \<le> m_matchesWon r \<and> m_matchesWon r \<le> m_matchesPlayed r" by simp
  from win_pct_between [OF h' p'] r
  show "0 \<le> ma_winPct a" "ma_winPct a \<le> 100" by (simp_all add: map_agg_row_fields)
next
  fix a
  assume a: "a \<in> set (rows_of (ops_df_agg_team_of ops_df))"
    and h: "\<forall>r\<in>set (group_of key_operator_side (rows_of ops_df) (ot_operatorName a, ot_side a)).
            0 \<le> o_matchesWon r \<and> o_matchesWon r \<le> o_matchesPlayed r"
    and p: "0 < ot_matchesPlayed a"
  from a obtain k where r: "a = op_team_row_of (rows_of ops_df) k" using ops_team_rows by blast
  from r have n: "(ot_operatorName a, ot_side a) = k" by (simp add: op_team_row_fields)
  from p r have p': "0 < sum_list (map o_matchesPlayed (group_of key_operator_side (rows_of ops_df) k))"
    by (simp add: op_team_row_fields)
  from h n have h': "\<forall>r\<in>set (group_of key_operator_side (rows_of ops_df) k).
            0 \<le> o_matchesWon r \<and> o_matchesWon r \<le> o_matchesPlayed r" by simp
  from win_pct_between [OF h' p'] r
  show "0 \<le> ot_winPct a" "ot_winPct a \<le> 100" by (simp_all add: op_team_row_fields)
next
  fix a
  assume a: "a \<in> set (rows_of (ops_df_agg_player_of ops_df))"
    and h: "\<forall>r\<in>set (group_of key_player_operator_side (rows_of ops_df)
                     (op_player a, op_operatorName a, op_side a)).
            0 \<le> o_matchesWon r \<and> o_matchesWon r \<le> o_matchesPlayed r"
    and p: "0 < op_matchesPlayed a"
  from a obtain k where r: "a = op_player_row_of (rows_of ops_df) k" using ops_player_rows by blast
  from r have n: "(op_player a, op_operatorName a, op_side a) = k" by (simp add: op_player_row_fields)
  from p r have p': "0 < sum_list (map o_matchesPlayed (group_of key_player_operator_side (rows_of ops_df) k))"
    by (simp add: op_player_row_fields)
  from h n have h': "\<forall>r\<in>set (group_of key_player_operator_side (rows_of ops_df) k).
            0 \<le> o_matchesWon r \<and> o_matchesWon r \<le> o_matchesPlayed r" by simp
  from win_pct_between [OF h' p'] r
  show "0 \<le> op_winPct a" "op_winPct a \<le> 100" by (simp_all add: op_player_row_fields)
next
  fix a
  assume a: "a \<in> set (rows_of (df_overview_equipe_of overview_df))"
    and h: "\<forall>r\<in>set (rows_of overview_df). 0 \<le> ov_matchesWon r \<and> ov_matchesWon r \<le> ov_matchesPlayed r"
    and p: "0 < eq_matchesPlayed a"
  note f = team_overview_rows [OF a]
  from sum_list_between [OF h] f
  have "0 \<le> eq_matchesWon a \<and> eq_matchesWon a \<le> eq_matchesPlayed a" by simp
  with p have "0 \<le> win_pct (eq_matchesWon a) (eq_matchesPlayed a)
      \<and> win_pct (eq_matchesWon a) (eq_matchesPlayed a) \<le> 100"
    using win_pct_range by blast
  then show "0 \<le> eq_winPct a" "eq_winPct a \<le> 100" using f by simp_all
next
  show "\<exists>sides. sides_df_agg_of (ops_df_agg_team_of ops_df) = Inr sides
     \<and> (\<forall>s\<in>set (rows_of sides).
          (s_matchesPlayed s = 0 \<longrightarrow> s_winPctSide s = 0)
        \<and> ((\<forall>r\<in>set (rows_of ops_df). o_side r = Some (s_side s) \<longrightarrow>
                 0 \<le> o_matchesWon r \<and> o_matchesWon r \<le> o_matchesPlayed r) \<longrightarrow>
             (0 < s_matchesPlayed s \<longrightarrow> 0 \<le> s_winPctSide s \<and> s_winPctSide s \<le> 100)))"
    by (rule side_win_pct)
qed


theorem win_pct_in_range_witness:
  "list_all (\<lambda>r. 0 \<le> m_matchesWon r \<and> m_matchesWon r \<le> m_matchesPlayed r)
     (group_of m_mapName (rows_of maps_df_mixed) ''Bank'')
 \<and> \<not> list_all (\<lambda>r. 0 \<le> m_matchesWon r \<and> m_matchesWon r \<le> m_matchesPlayed r) (rows_of maps_df_mixed)
 \<and> map (\<lambda>a. (ma_mapName a, ma_matchesPlayed a, ma_matchesWon a, ma_winPct a))
       (rows_of (maps_df_agg_of maps_df_mixed)) = [(''Bank'', 40, 20, 50), (''Oregon'', 0, 3, 0)]
 \<and> list_all (\<lambda>a. 0 \<le> ma_winPct a \<and> ma_winPct a \<le> 100) (rows_of (maps_df_agg_of maps_df_mixed))
 \<and> map ot_matchesPlayed (rows_of (ops_df_agg_team_of ops_df_unplayed)) = [0]
 \<and> map ot_winPct (rows_of (ops_df_agg_team_of ops_df_unplayed)) = [0]
 \<and> sides_df_agg_of (ops_df_agg_team_of ops_df_AB) = Inr (Rows [side_row_AB])
 \<and> s_winPctSide side_row_AB = 65"
proof -
  note t = win_pct_in_range [where maps_df = maps_df_mixed and ops_df = ops_df_unplayed
      and overview_df = EmptyFrame]
  have h: "list_all (\<lambda>r. 0 \<le> m_matchesWon r \<and> m_matchesWon r \<le> m_matchesPlayed r)
     (group_of m_mapName (rows_of maps_df_mixed) ''Bank'')"
    by (simp add: maps_df_mixed_def group_of_def)
  have n: "\<not> list_all (\<lambda>r. 0 \<le> m_matchesWon r \<and> m_matchesWon r \<le> m_matchesPlayed r) (rows_of maps_df_mixed)"
    by (simp add: maps_df_mixed_def)
  note m = rows_maps_df_agg_mixed
  from m obtain b g where bg: "rows_of (maps_df_agg_of maps_df_mixed) = [b, g]"
    and b: "ma_mapName b = ''Bank''" "ma_matchesPlayed b = 40"
    and g: "ma_matchesPlayed g = 0"
    by (auto simp: map_eq_Cons_conv)
  from h b have h': "\<forall>r\<in>set (group_of m_mapName (rows_of maps_df_mixed) (ma_mapName b)).
            0 \<le> m_matchesWon r \<and> m_matchesWon r \<le> m_matchesPlayed r"
    by (simp add: list_all_iff)
  from t bg h' b have wb: "0 \<le> ma_winPct b \<and> ma_winPct b \<le> 100" by simp
  from t bg g have wg: "ma_winPct g = 0" by simp
  from bg wb wg have c: "list_all (\<lambda>a. 0 \<le> ma_winPct a \<and> ma_winPct a \<le> 100) (rows_of (maps_df_agg_of maps_df_mixed))"
    by simp
  obtain r where r: "rows_of (ops_df_agg_team_of ops_df_unplayed) = [r]" and rp: "ot_matchesPlayed r = 0"
    by (simp add: rows_ops_team_unplayed team_row_unplayed_def)
  from t r rp have "ot_winPct r = 0" by simp
  with r rp have z: "map ot_matchesPlayed (rows_of (ops_df_agg_team_of ops_df_unplayed)) = [0]
     \<and> map ot_winPct (rows_of (ops_df_agg_team_of ops_df_unplayed)) = [0]" by simp
  have w: "s_winPctSide side_row_AB = 65" by (simp add: side_row_AB_def)
  from h n m c z sides_AB w show ?thesis by blast
qed

section \<open>Unknown operators\<close>

text \<open>
  Claim C2. The operator extractor yields no row whose operatorName is empty or equal to
  \<^verbatim>\<open>unknown\<close> whatever the case of its letters, for every record set and participant for
  which it returns a table (it raises \<^verbatim>\<open>AttributeError\<close> on a \<^verbatim>\<open>null\<close> name); the
  operator aggregates by player and by team built from the extracted rows hold no such row
  (the side aggregate has no operatorName column); the report renderer drops, from any
  tables it is given, the operator rows and the map rows whose name is \<^verbatim>\<open>unknown\<close> in
  any case, so no element of the document shows one; and the operator rows of the report
  that the last block of main builds from the tables of the selected players are neither
  unknown nor unnamed.
\<close>

theorem no_unknown_operator_rows:
  "(parse_operators_to_df ops_json p = Inr df \<longrightarrow>
      (\<forall>r\<in>set (rows_of df). o_operatorName r \<noteq> [] \<and> lower (o_operatorName r) \<noteq> ''unknown''))
 \<and> (ops_df_of players = Inr ops_df \<longrightarrow>
      (\<forall>r\<in>set (rows_of (ops_df_agg_player_of ops_df)).
         op_operatorName r \<noteq> [] \<and> lower (op_operatorName r) \<noteq> ''unknown'')
    \<and> (\<forall>r\<in>set (rows_of (ops_df_agg_team_of ops_df)).
         ot_operatorName r \<noteq> [] \<and> lower (ot_operatorName r) \<noteq> ''unknown''))
 \<and> (create_pdf_report jogadores overview_raw maps_df_agg ops_df_agg_player ops_df_agg_team
        sides_df_agg min_operator_matches min_map_matches = Inr els \<longrightarrow>
      (\<forall>e\<in>set els.
         (\<forall>r\<in>set (element_op_rows e). lower (op_operatorName r) \<noteq> ''unknown'')
       \<and> (\<forall>r\<in>set (element_map_rows e). lower (ma_mapName r) \<noteq> ''unknown'')))
 \<and> (ops_df_of players = Inr ops_df \<longrightarrow>
      main_pdf_button (map fst players) (overview_raw_by_player_of players)
        (maps_df_agg_of (maps_df_of players)) (ops_df_agg_player_of ops_df)
        (ops_df_agg_team_of ops_df) min_operator_matches min_map_matches = Inr els' \<longrightarrow>
      (\<forall>e\<in>set els'. \<forall>r\<in>set (element_op_rows e).
         op_operatorName r \<noteq> [] \<and> lower (op_operatorName r) \<noteq> ''unknown''))"
proof (intro conjI ballI impI)
  fix r assume "parse_operators_to_df ops_json p = Inr df" "r \<in> set (rows_of df)"
  then show "o_operatorName r \<noteq> []" "lower (o_operatorName r) \<noteq> ''unknown''"
    using parse_operators_names by blast+
next
  fix r assume "ops_df_of players = Inr ops_df" "r \<in> set (rows_of (ops_df_agg_player_of ops_df))"
  then show "op_operatorName r \<noteq> []" "lower (op_operatorName r) \<noteq> ''unknown''"
    using ops_player_names ops_df_of_names by metis+
next
  fix r assume "ops_df_of players = Inr ops_df" "r \<in> set (rows_of (ops_df_agg_team_of ops_df))"
  then show "ot_operatorName r \<noteq> []" "lower (ot_operatorName r) \<noteq> ''unknown''"
    using ops_team_names ops_df_of_names by metis+
next
  fix e r
  assume c: "create_pdf_report jogadores overview_raw maps_df_agg ops_df_agg_player ops_df_agg_team
        sides_df_agg min_operator_matches min_map_matches = Inr els" and e: "e \<in> set els"
  { assume "r \<in> set (element_op_rows e)"
    with rendered_rows [OF c e] show "lower (op_operatorName r) \<noteq> ''unknown''" by blast }
  { assume "r \<in> set (element_map_rows e)"
    with rendered_rows [OF c e] show "lower (ma_mapName r) \<noteq> ''unknown''" by blast }
next
  fix e r
  assume o: "ops_df_of players = Inr ops_df"
    and m: "main_pdf_button (map fst players) (overview_raw_by_player_of players)
        (maps_df_agg_of (maps_df_of players)) (ops_df_agg_player_of ops_df)
        (ops_df_agg_team_of ops_df) min_operator_matches min_map_matches = Inr els'"
    and e: "e \<in> set els'" and r: "r \<in> set (element_op_rows e)"
  from main_pdf_button_Inr [OF m] obtain sides where
    c: "create_pdf_report (map fst players) (overview_raw_by_player_of players)
           (maps_df_agg_of (maps_df_of players)) (ops_df_agg_player_of ops_df)
           (ops_df_agg_team_of ops_df) sides min_operator_matches min_map_matches = Inr els'"
    by blast
  from rendered_rows [OF c e] r have "r \<in> set (rows_of (ops_df_agg_player_of ops_df))"
    by blast
  with o show "op_operatorName r \<noteq> []" "lower (op_operatorName r) \<noteq> ''unknown''"
    using ops_player_names ops_df_of_names by metis+
qed


theorem no_unknown_operator_rows_witness:
  "(\<exists>df. parse_operators_to_df ops_json_A ''A'' = Inr df
       \<and> map o_operatorName (rows_of df) = [''Ash'']
       \<and> list_all (\<lambda>r. o_operatorName r \<noteq> [] \<and> lower (o_operatorName r) \<noteq> ''unknown'') (rows_of df))
 \<and> map ma_mapName (rows_of (maps_df_agg_of (maps_df_of players_A))) = [''Bank'', ''Unknown'']
 \<and> (case ops_df_of players_A of
       Inl e \<Rightarrow> ([], [])
     | Inr ops_df \<Rightarrow>
         (case main_pdf_button (map fst players_A) (overview_raw_by_player_of players_A)
                 (maps_df_agg_of (maps_df_of players_A)) (ops_df_agg_player_of ops_df)
                 (ops_df_agg_team_of ops_df) 10 1 of
            Inl e \<Rightarrow> ([], [])
          | Inr els \<Rightarrow> (concat (map (\<lambda>e. map op_operatorName (element_op_rows e)) els),
                        concat (map (\<lambda>e. map ma_mapName (element_map_rows e)) els))))
     = ([''Ash'', ''Ash'', ''Ash''], [''Bank'', ''Bank'', ''Bank''])"
proof -
  have a: "parse_operators_to_df ops_json_A ''A'' = Inr (Rows [op_row_of ''A'' ''Ash'' (op_entry_ash 40 20)])"
    by code_simp
  note t = no_unknown_operator_rows [where ops_json = ops_json_A and p = "''A''"
      and df = "Rows [op_row_of ''A'' ''Ash'' (op_entry_ash 40 20)]"
      and players = players_A and ops_df = EmptyFrame and jogadores = "[]" and overview_raw = "[]"
      and maps_df_agg = EmptyFrame and ops_df_agg_player = EmptyFrame and ops_df_agg_team = EmptyFrame
      and sides_df_agg = EmptyFrame and min_operator_matches = 10 and min_map_matches = 1
      and els = "[]" and els' = "[]", THEN conjunct1]
  have a': "map o_operatorName (rows_of (Rows [op_row_of ''A'' ''Ash'' (op_entry_ash 40 20)])) = [''Ash'']"
    by (simp add: op_row_of_def Let_def)
  from t a have b: "list_all (\<lambda>r. o_operatorName r \<noteq> [] \<and> lower (o_operatorName r) \<noteq> ''unknown'')
      (rows_of (Rows [op_row_of ''A'' ''Ash'' (op_entry_ash 40 20)]))"
    by (simp add: list_all_iff)
  have c: "map ma_mapName (rows_of (maps_df_agg_of (maps_df_of players_A))) = [''Bank'', ''Unknown'']"
    by code_simp
  have d: "(case ops_df_of players_A of
       Inl e \<Rightarrow> ([], [])
     | Inr ops_df \<Rightarrow>
         (case main_pdf_button (map fst players_A) (overview_raw_by_player_of players_A)
                 (maps_df_agg_of (maps_df_of players_A)) (ops_df_agg_player_of ops_df)
                 (ops_df_agg_team_of ops_df) 10 1 of
            Inl e \<Rightarrow> ([], [])
          | Inr els \<Rightarrow> (concat (map (\<lambda>e. map op_operatorName (element_op_rows e)) els),
                        concat (map (\<lambda>e. map ma_mapName (element_map_rows e)) els))))
     = ([''Ash'', ''Ash'', ''Ash''], [''Bank'', ''Bank'', ''Bank''])"
    by code_simp
  from a a' b have x: "\<exists>df. parse_operators_to_df ops_json_A ''A'' = Inr df
       \<and> map o_operatorName (rows_of df) = [''Ash'']
       \<and> list_all (\<lambda>r. o_operatorName r \<noteq> [] \<and> lower (o_operatorName r) \<noteq> ''unknown'') (rows_of df)"
    by (intro exI [of _ "Rows [op_row_of ''A'' ''Ash'' (op_entry_ash 40 20)]"] conjI)
  from x c d show ?thesis by (intro conjI)
qed


section \<open>Rendering with empty tables\<close>

text \<open>
  Claim C3 says that the renderer completes without fault whenever one or more of its
  tables is empty, with a "no data" line for each empty section. A map table or a
  per-player operator table that is \<^verbatim>\<open>pd.DataFrame()\<close>, which is the map aggregate of
  step 7.4 when no participant has \<^verbatim>\<open>maps.json\<close>, raises \<^verbatim>\<open>KeyError\<close>; and with empty
  tables that have their columns only the operator section of a player gets a "no data"
  line.
\<close>

theorem report_faults_or_omits_counterexample:
  "create_pdf_report [''A''] [] EmptyFrame (Rows [player_row_A]) EmptyFrame EmptyFrame 1 1 = Inl KeyError
 \<and> create_pdf_report [''A''] [] (Rows []) EmptyFrame EmptyFrame EmptyFrame 1 1 = Inl KeyError
 \<and> ops_df_of players_no_maps = Inr (Rows [op_row_of ''A'' ''Ash'' (op_entry_ash 40 20)])
 \<and> maps_df_agg_of (maps_df_of players_no_maps) = EmptyFrame
 \<and> main_pdf_button (map fst players_no_maps) (overview_raw_by_player_of players_no_maps)
       (maps_df_agg_of (maps_df_of players_no_maps))
       (ops_df_agg_player_of (Rows [op_row_of ''A'' ''Ash'' (op_entry_ash 40 20)]))
       (ops_df_agg_team_of (Rows [op_row_of ''A'' ''Ash'' (op_entry_ash 40 20)])) 1 1 = Inl KeyError
 \<and> create_pdf_report [''A''] [] (Rows []) (Rows []) EmptyFrame EmptyFrame 1 1
     = Inr [Titulo, Spacer 12, Insights_heading ''A'', Sem_dados_operadores, Spacer 8, Geral_heading]"
  by code_simp


text \<open>
  Claim C3, amended. When the map aggregate and the per-player operator aggregate have
  their columns, rendering completes without fault whichever tables are empty; every listed
  player with no operator row left after the filters gets the heading and the "no data"
  line; an empty map table leaves both map sections out of the document and an empty side
  table both side sections, with no line in their place.
\<close>

theorem report_renders_with_empty_tables:
  "\<exists>els ops maps.
      create_pdf_report jogadores overview_raw (Rows map_rows) (Rows ops_rows) ops_df_agg_team
        sides_df_agg min_operator_matches min_map_matches = Inr els
    \<and> filter_ops (Rows ops_rows) min_operator_matches = Inr ops
    \<and> filter_maps (Rows map_rows) min_map_matches = Inr maps
    \<and> (\<forall>player\<in>set jogadores. filter (\<lambda>r. op_player r = player) ops = [] \<longrightarrow>
          (\<exists>pre post. els = pre @ [Insights_heading player, Sem_dados_operadores, Spacer 8] @ post))
    \<and> (maps = [] \<longrightarrow> (\<forall>e\<in>set els. \<not> is_map_element e))
    \<and> (filter_sides sides_df_agg = [] \<longrightarrow> (\<forall>e\<in>set els. \<not> is_side_element e))"
proof -
  obtain ops where o: "filter_ops (Rows ops_rows) min_operator_matches = Inr ops"
    by (simp add: filter_ops_def)
  obtain maps where m: "filter_maps (Rows map_rows) min_map_matches = Inr maps"
    by (simp add: filter_maps_def)
  define sides where "sides = filter_sides sides_df_agg"
  define els where "els = [Titulo, Spacer 12] @ mapas_section maps @ lados_section sides
        @ concat (map (jogador_section ops) jogadores) @ mapas_grafico_section maps
        @ lados_tabela_section sides @ [Geral_heading] @ concat (map geral_section overview_raw)"
  have c: "create_pdf_report jogadores overview_raw (Rows map_rows) (Rows ops_rows) ops_df_agg_team
        sides_df_agg min_operator_matches min_map_matches = Inr els"
    using o m by (simp add: create_pdf_report_def Let_def els_def sides_def)
  have p: "\<forall>player\<in>set jogadores. filter (\<lambda>r. op_player r = player) ops = [] \<longrightarrow>
          (\<exists>pre post. els = pre @ [Insights_heading player, Sem_dados_operadores, Spacer 8] @ post)"
  proof (intro ballI impI)
    fix player assume "player \<in> set jogadores" and f: "filter (\<lambda>r. op_player r = player) ops = []"
    then obtain js1 js2 where js: "jogadores = js1 @ player # js2" by (meson split_list)
    have "els = ([Titulo, Spacer 12] @ mapas_section maps @ lados_section sides
                   @ concat (map (jogador_section ops) js1))
              @ [Insights_heading player, Sem_dados_operadores, Spacer 8]
              @ (concat (map (jogador_section ops) js2) @ mapas_grafico_section maps
                   @ lados_tabela_section sides @ [Geral_heading] @ concat (map geral_section overview_raw))"
      by (simp add: els_def js jogador_section_no_data [OF f])
    then show "\<exists>pre post. els = pre @ [Insights_heading player, Sem_dados_operadores, Spacer 8] @ post"
      by blast
  qed
  have q: "maps = [] \<longrightarrow> (\<forall>e\<in>set els. \<not> is_map_element e)"
  proof (intro impI ballI)
    fix e assume "maps = []" and "e \<in> set els"
    then show "\<not> is_map_element e"
      using lados_section_rows jogador_section_rows lados_tabela_section_rows geral_section_rows
      by (fastforce simp: els_def mapas_sections_Nil)
  qed
  have r: "filter_sides sides_df_agg = [] \<longrightarrow> (\<forall>e\<in>set els. \<not> is_side_element e)"
  proof (intro impI ballI)
    fix e assume "filter_sides sides_df_agg = []" and "e \<in> set els"
    then show "\<not> is_side_element e"
      using mapas_section_rows jogador_section_rows mapas_grafico_section_rows geral_section_rows
      by (fastforce simp: els_def sides_def lados_sections_Nil)
  qed
  from c o m p q r show ?thesis by blast
qed


theorem report_renders_with_empty_tables_witness:
  "create_pdf_report [''A'', ''B''] [] (Rows []) (Rows [player_row_A, player_row_B]) EmptyFrame
     EmptyFrame 50 1 = Inr report_AB
 \<and> filter_maps (Rows []) 1 = Inr []
 \<and> filter_sides EmptyFrame = []
 \<and> filter_ops (Rows [player_row_A, player_row_B]) 50 = Inr [player_row_B]
 \<and> list_all (\<lambda>e. \<not> is_map_element e \<and> \<not> is_side_element e) report_AB"
proof -
  have ev: "create_pdf_report [''A'', ''B''] [] (Rows []) (Rows [player_row_A, player_row_B]) EmptyFrame
     EmptyFrame 50 1 = Inr report_AB"
    by code_simp
  have fm: "filter_maps (Rows []) 1 = Inr []" by (simp add: filter_maps_def)
  have fs: "filter_sides EmptyFrame = []" by (simp add: filter_sides_def)
  have fo: "filter_ops (Rows [player_row_A, player_row_B]) 50 = Inr [player_row_B]"
    by code_simp
  from report_renders_with_empty_tables [where jogadores = "[''A'', ''B'']" and overview_raw = "[]"
      and map_rows = "[]" and ops_rows = "[player_row_A, player_row_B]"
      and ops_df_agg_team = EmptyFrame and sides_df_agg = EmptyFrame
      and min_operator_matches = 50 and min_map_matches = 1]
  obtain els maps where e: "create_pdf_report [''A'', ''B''] [] (Rows []) (Rows [player_row_A, player_row_B])
        EmptyFrame EmptyFrame 50 1 = Inr els"
    and m: "filter_maps (Rows []) 1 = Inr maps"
    and q: "maps = [] \<longrightarrow> (\<forall>e\<in>set els. \<not> is_map_element e)"
    and r: "filter_sides EmptyFrame = [] \<longrightarrow> (\<forall>e\<in>set els. \<not> is_side_element e)"
    by blast
  from e ev have "els = report_AB" by simp
  moreover from m fm have "maps = []" by simp
  ultimately have "\<forall>e\<in>set report_AB. \<not> is_map_element e \<and> \<not> is_side_element e"
    using q r fs by blast
  then have l: "list_all (\<lambda>e. \<not> is_map_element e \<and> \<not> is_side_element e) report_AB"
    by (simp add: list_all_iff)
  from ev fm fs fo l show ?thesis by blast
qed


end
